theory Spec2Isabelle
  imports Complex_Main
begin

section \<open>Equity volatility surface: calibration and query engine\<close>

text \<open>
  A shallow embedding of \<^verbatim>\<open>financepy/market/volatility/equity_vol_surface.py\<close>.
  Python floats are idealised as \<^typ>\<open>real\<close>: comparisons and control flow are those of
  the source, arithmetic is exact. Exceptions are values of the sum type
  \<open>error + 'a\<close>, with \<open>Inl\<close> for the exception.
\<close>

subsection \<open>Errors, enumerations and the external collaborators\<close>

datatype error =
    FinError string
  | SolverException string
  | UnboundLocalError string
  | ValueError
  | IndexError
  | StrikeSolveFailed

text \<open>
  The two enumerations are imported by the source from modules that are not part of the
  surveyed files; their members are the ones the source names.
\<close>

datatype FinVolFunctionTypes =
  CLARK | SABR | SABR_BETA_ONE | SABR_BETA_HALF | BBG | CLARK5 | SVI | SSVI

datatype FinSolverTypes = NELDER_MEAD | NELDER_MEAD_NUMBA | CONJUGATE_GRADIENT

text \<open>
  A \<^verbatim>\<open>Date\<close> is the number of days on the calendar's day count, with the intraday part
  as a fraction: \<^verbatim>\<open>d2 - d1\<close> is the elapsed number of days.
\<close>

type_synonym Date = real

text \<open>The result object of \<^verbatim>\<open>scipy.optimize.minimize\<close>: the point and the success flag.\<close>

datatype OptimizeResult = OptimizeResult (opt_x: "real list") (opt_success: bool)

text \<open>What a run of the calibration can be observed to do besides returning.\<close>

datatype event = Called_nelder_mead | Called_minimize string | Printed string

text \<open>
  The functions and constants that the source imports from modules outside the surveyed
  files are parameters of the model: the constant \<^verbatim>\<open>gDaysInYear\<close>, the integer
  \<^verbatim>\<open>.value\<close> of each enumeration member, the smile formulas, the Black-Scholes delta, the
  inverse normal distribution function, the update rule of the one-dimensional root
  search and the two optimizers. An optimizer receives the objective, the starting point
  and its tolerances; it either raises or returns.
\<close>

record env =
  gDaysInYear :: real
  fvt_value :: "FinVolFunctionTypes \<Rightarrow> int"
  EUROPEAN_CALL_value :: int
  vol_function_clark :: "real list \<Rightarrow> real \<Rightarrow> real \<Rightarrow> real \<Rightarrow> real"
  vol_function_sabr :: "real list \<Rightarrow> real \<Rightarrow> real \<Rightarrow> real \<Rightarrow> real"
  vol_function_sabr_BETA_ONE :: "real list \<Rightarrow> real \<Rightarrow> real \<Rightarrow> real \<Rightarrow> real"
  vol_function_sabr_BETA_HALF :: "real list \<Rightarrow> real \<Rightarrow> real \<Rightarrow> real \<Rightarrow> real"
  vol_Function_bloomberg :: "real list \<Rightarrow> real \<Rightarrow> real \<Rightarrow> real \<Rightarrow> real"
  vol_function_svi :: "real list \<Rightarrow> real \<Rightarrow> real \<Rightarrow> real \<Rightarrow> real"
  vol_function_ssvi :: "real list \<Rightarrow> real \<Rightarrow> real \<Rightarrow> real \<Rightarrow> real"
  bs_delta :: "real \<Rightarrow> real \<Rightarrow> real \<Rightarrow> real \<Rightarrow> real \<Rightarrow> real \<Rightarrow> int \<Rightarrow> real"
  norminvcdf :: "real \<Rightarrow> real"
  secant_start :: "real \<Rightarrow> real"
  secant_update :: "real \<Rightarrow> real \<Rightarrow> real \<Rightarrow> real \<Rightarrow> real"
  nelder_mead :: "(real list \<Rightarrow> error + real) \<Rightarrow> real list \<Rightarrow> real \<Rightarrow> real \<Rightarrow> nat
                    \<Rightarrow> error + real list"
  minimize :: "(real list \<Rightarrow> error + real) \<Rightarrow> real list \<Rightarrow> string \<Rightarrow> real
                    \<Rightarrow> error + OptimizeResult"

subsection \<open>Loops over a range\<close>

text \<open>
  \<^verbatim>\<open>for i in range(a, b): body\<close> over a state, where the body may raise: the loop
  stops at the first exception.
\<close>

fun for_loop :: "nat list \<Rightarrow> (nat \<Rightarrow> 's \<Rightarrow> error + 's) \<Rightarrow> 's \<Rightarrow> error + 's" where
  "for_loop [] body st = Inr st"
| "for_loop (i # rest) body st =
     (case body i st of Inl e \<Rightarrow> Inl e | Inr st' \<Rightarrow> for_loop rest body st')"

subsection \<open>The smile function family\<close>

definition volFunction :: "env \<Rightarrow> int \<Rightarrow> real list \<Rightarrow> real \<Rightarrow> real \<Rightarrow> real \<Rightarrow> error + real" where
  "volFunction env vol_function_type_value params f k t =
     (if vol_function_type_value = fvt_value env CLARK then
        Inr (vol_function_clark env params f k t)
      else if vol_function_type_value = fvt_value env SABR_BETA_ONE then
        Inr (vol_function_sabr_BETA_ONE env params f k t)
      else if vol_function_type_value = fvt_value env SABR_BETA_HALF then
        Inr (vol_function_sabr_BETA_HALF env params f k t)
      else if vol_function_type_value = fvt_value env BBG then
        Inr (vol_Function_bloomberg env params f k t)
      else if vol_function_type_value = fvt_value env SABR then
        Inr (vol_function_sabr env params f k t)
      else if vol_function_type_value = fvt_value env CLARK5 then
        Inr (vol_function_clark env params f k t)
      else if vol_function_type_value = fvt_value env SVI then
        Inr (vol_function_svi env params f k t)
      else if vol_function_type_value = fvt_value env SSVI then
        Inr (vol_function_ssvi env params f k t)
      else Inl (FinError ''Unknown Model Type''))"

subsection \<open>The per-expiry calibrator\<close>

text \<open>
  The objective \<^verbatim>\<open>_obj(params, *args)\<close>: the sum over the strikes of the squared
  difference between the fitted and the market volatility of one time slice.
\<close>

type_synonym obj_args =
  "real \<times> real \<times> real \<times> real \<times> real list \<times> nat \<times> real list list \<times> int"

definition obj :: "env \<Rightarrow> obj_args \<Rightarrow> real list \<Rightarrow> error + real" where
  "obj env args params =
     (case args of (s, t, r, q, strikes, index, volatility_grid, volTypeValue) \<Rightarrow>
        let f = s * exp ((r - q) * t);
            numStrikes = length (volatility_grid ! 0)
        in for_loop [0..<numStrikes]
             (\<lambda>i tot.
                case volFunction env volTypeValue params f (strikes ! i) t of
                  Inl e \<Rightarrow> Inl e
                | Inr fittedVol \<Rightarrow>
                    let mktVol = volatility_grid ! index ! i;
                        diff = fittedVol - mktVol
                    in Inr (tot + diff ^ 2))
             0)"

text \<open>
  \<^verbatim>\<open>_solveToHorizon\<close>. The \<^verbatim>\<open>try\<close> block runs the optimizer selected by
  \<^verbatim>\<open>finSolverType\<close>; the bare \<^verbatim>\<open>except\<close> catches whatever it raises and, unless the
  selected optimizer was conjugate gradient, prints and runs conjugate gradient
  outside any handler. Of a returned \<^verbatim>\<open>OptimizeResult\<close> only \<^verbatim>\<open>x\<close> is read. When
  the handler does nothing, \<^verbatim>\<open>xopt\<close> is unbound at \<^verbatim>\<open>np.array(xopt)\<close>. The second
  component lists, in order, the optimizer calls and the printing.
\<close>

definition primary_call :: "FinSolverTypes \<Rightarrow> event" where
  "primary_call finSolverType =
     (case finSolverType of
        NELDER_MEAD_NUMBA \<Rightarrow> Called_nelder_mead
      | NELDER_MEAD \<Rightarrow> Called_minimize ''Nelder-Mead''
      | CONJUGATE_GRADIENT \<Rightarrow> Called_minimize ''CG'')"

definition primary_run ::
  "env \<Rightarrow> (real list \<Rightarrow> error + real) \<Rightarrow> real list \<Rightarrow> real \<Rightarrow> FinSolverTypes
     \<Rightarrow> error + real list" where
  "primary_run env objective xinits tol finSolverType =
     (case finSolverType of
        NELDER_MEAD_NUMBA \<Rightarrow> nelder_mead env objective xinits tol tol 1000
      | NELDER_MEAD \<Rightarrow>
          (case minimize env objective xinits ''Nelder-Mead'' tol of
             Inl e \<Rightarrow> Inl e | Inr opt \<Rightarrow> Inr (opt_x opt))
      | CONJUGATE_GRADIENT \<Rightarrow>
          (case minimize env objective xinits ''CG'' tol of
             Inl e \<Rightarrow> Inl e | Inr opt \<Rightarrow> Inr (opt_x opt)))"

definition solveToHorizon ::
  "env \<Rightarrow> real \<Rightarrow> real \<Rightarrow> real \<Rightarrow> real \<Rightarrow> real list \<Rightarrow> nat \<Rightarrow> real list list \<Rightarrow> int
     \<Rightarrow> real list \<Rightarrow> FinSolverTypes \<Rightarrow> (error + real list) \<times> event list" where
  "solveToHorizon env s t r q strikes timeIndex volatility_grid volTypeValue xinits
       finSolverType =
     (let tol = 1 / 10 ^ 6;
          args = (s, t, r, q, strikes, timeIndex, volatility_grid, volTypeValue)
      in case primary_run env (obj env args) xinits tol finSolverType of
           Inr xopt \<Rightarrow> (Inr xopt, [primary_call finSolverType])
         | Inl e \<Rightarrow>
             if finSolverType \<noteq> CONJUGATE_GRADIENT then
               (case minimize env (obj env args) xinits ''CG'' tol of
                  Inl e' \<Rightarrow>
                    (Inl e',
                     [primary_call finSolverType,
                      Printed ''Failed to converge, will try CG'',
                      Called_minimize ''CG''])
                | Inr opt \<Rightarrow>
                    (Inr (opt_x opt),
                     [primary_call finSolverType,
                      Printed ''Failed to converge, will try CG'',
                      Called_minimize ''CG'']))
             else (Inl (UnboundLocalError ''xopt''), [primary_call finSolverType]))"

subsection \<open>The delta-implied-strike solver\<close>

text \<open>
  \<^verbatim>\<open>_deltaFit(k, *args)\<close>: the objective of the strike search, in inverse normal
  distribution space. The delta enters through its absolute value only.
\<close>

type_synonym deltaFit_args =
  "int \<times> real \<times> real \<times> real \<times> real \<times> int \<times> real \<times> real list"

definition deltaFit :: "env \<Rightarrow> deltaFit_args \<Rightarrow> real \<Rightarrow> error + real" where
  "deltaFit env args k =
     (case args of
        (volTypeValue, s, t, r, q, option_type_value, inverseDeltaTarget, params) \<Rightarrow>
          let f = s * exp ((r - q) * t)
          in case volFunction env volTypeValue params f k t of
               Inl e \<Rightarrow> Inl e
             | Inr v \<Rightarrow>
                 let deltaOut = bs_delta env s t k r q v option_type_value;
                     inverseDeltaOut = norminvcdf env \<bar>deltaOut\<bar>;
                     invObjFn = inverseDeltaTarget - inverseDeltaOut
                 in Inr invObjFn)"

text \<open>
  Modelled from the spec: \<^verbatim>\<open>newton_secant\<close> of \<^verbatim>\<open>utils/solver_1d\<close> is not among the
  surveyed files. The specification describes it as a secant-Newton iteration on the
  strike, on the difference of the target and the computed delta in inverse normal
  distribution space, that returns a strike at which the two agree within the
  tolerance after at most the given number of iterations, and that fails with
  \<open>StrikeSolveFailed\<close>, rather than returning a stale guess, when the iteration budget
  is used up. So every iteration computes one new strike and evaluates the objective
  there, and the strike is returned when the objective is within the tolerance of
  zero. The second starting point and the update rule are the parameters
  \<^const>\<open>secant_start\<close> and \<^const>\<open>secant_update\<close>. The second component lists the strikes
  that the iterations computed, in order.
\<close>

fun secant_iterate ::
  "env \<Rightarrow> (real \<Rightarrow> error + real) \<Rightarrow> real \<Rightarrow> nat \<Rightarrow> real \<Rightarrow> real \<Rightarrow> real \<Rightarrow> real
     \<Rightarrow> (error + real) \<times> real list" where
  "secant_iterate env func tol 0 p0 q0 p1 q1 = (Inl StrikeSolveFailed, [])"
| "secant_iterate env func tol (Suc n) p0 q0 p1 q1 =
     (let p = secant_update env p0 q0 p1 q1
      in case func p of
           Inl e \<Rightarrow> (Inl e, [p])
         | Inr qp \<Rightarrow>
             if \<bar>qp\<bar> < tol then (Inr p, [p])
             else (case secant_iterate env func tol n p1 q1 p qp of
                     (res, ps) \<Rightarrow> (res, p # ps)))"

definition newton_secant ::
  "env \<Rightarrow> (real \<Rightarrow> error + real) \<Rightarrow> real \<Rightarrow> real \<Rightarrow> nat \<Rightarrow> (error + real) \<times> real list" where
  "newton_secant env func x0 tol maxiter =
     (case func x0 of
        Inl e \<Rightarrow> (Inl e, [])
      | Inr q0 \<Rightarrow>
          let p1 = secant_start env x0
          in case func p1 of
               Inl e \<Rightarrow> (Inl e, [])
             | Inr q1 \<Rightarrow> secant_iterate env func tol maxiter x0 q0 p1 q1)"

text \<open>\<^verbatim>\<open>_solveForSmileStrike\<close>: whatever the root search returns or raises.\<close>

definition solveForSmileStrike ::
  "env \<Rightarrow> real \<Rightarrow> real \<Rightarrow> real \<Rightarrow> real \<Rightarrow> int \<Rightarrow> int \<Rightarrow> real \<Rightarrow> real \<Rightarrow> real list
     \<Rightarrow> error + real" where
  "solveForSmileStrike env s t r q option_type_value volatilityTypeValue deltaTarget
       initialGuess params =
     (let inverseDeltaTarget = norminvcdf env \<bar>deltaTarget\<bar>;
          argtuple = (volatilityTypeValue, s, t, r, q, option_type_value,
                      inverseDeltaTarget, params);
          K = fst (newton_secant env (deltaFit env argtuple) initialGuess (1 / 10 ^ 8) 50)
      in K)"

text \<open>
  In the words of the specification: at the strike \<open>K\<close>, the Black-Scholes delta
  computed at the volatility of the smile equals the target delta within \<open>1e-8\<close>,
  the two being compared through their absolute values in inverse normal distribution
  space.
\<close>

definition delta_within_tolerance ::
  "env \<Rightarrow> int \<Rightarrow> real \<Rightarrow> real \<Rightarrow> real \<Rightarrow> real \<Rightarrow> int \<Rightarrow> real \<Rightarrow> real list \<Rightarrow> real \<Rightarrow> bool" where
  "delta_within_tolerance env vtv s t r q otv deltaTarget params K =
     (case volFunction env vtv params (s * exp ((r - q) * t)) K t of
        Inl e \<Rightarrow> False
      | Inr v \<Rightarrow>
          \<bar>norminvcdf env \<bar>deltaTarget\<bar> - norminvcdf env \<bar>bs_delta env s t K r q v otv\<bar>\<bar>
            < 1 / 10 ^ 8)"

subsection \<open>The surface\<close>

text \<open>
  The fields of \<^verbatim>\<open>EquityVolSurface\<close>. The arrays \<^verbatim>\<open>_r\<close> and \<^verbatim>\<open>_q\<close> are the fields
  \<open>r_arr\<close> and \<open>q_arr\<close>; a curve is its method \<^verbatim>\<open>_df\<close>.
\<close>

record EquityVolSurface =
  valuation_date :: Date
  stock_price :: real
  discount_curve :: "real \<Rightarrow> real"
  dividend_curve :: "real \<Rightarrow> real"
  strikes :: "real list"
  numStrikes :: nat
  expiry_dates :: "Date list"
  numExpiryDates :: nat
  volatility_grid :: "real list list"
  volatility_function_type :: FinVolFunctionTypes
  parameters :: "real list list"
  texp :: "real list"
  F0T :: "real list"
  r_arr :: "real list"
  q_arr :: "real list"

subsection \<open>Bracket selection\<close>

text \<open>
  The search \<^verbatim>\<open>for i in range(1, num_curves)\<close> with its \<^verbatim>\<open>break\<close>; both indices stay
  0 when no pair is found.
\<close>

fun bracket_scan :: "real list \<Rightarrow> real \<Rightarrow> nat list \<Rightarrow> nat \<times> nat" where
  "bracket_scan ts tau [] = (0, 0)"
| "bracket_scan ts tau (i # rest) =
     (if tau \<le> ts ! i \<and> tau > ts ! (i - 1) then (i - 1, i)
      else bracket_scan ts tau rest)"

text \<open>The bracket of \<^verbatim>\<open>volatilityFromStrikeDate\<close>.\<close>

definition bracket_StrikeDate :: "EquityVolSurface \<Rightarrow> real \<Rightarrow> nat \<times> nat" where
  "bracket_StrikeDate self tau =
     (let num_curves = numExpiryDates self
      in if num_curves = 1 then (0, 0)
         else if tau \<le> texp self ! 0 then (0, 0)
         else if tau \<ge> last (texp self) then
           (length (texp self) - 1, length (texp self) - 1)
         else bracket_scan (texp self) tau [1..<num_curves])"

text \<open>The bracket of \<^verbatim>\<open>volatilityFromDeltaDate\<close>.\<close>

definition bracket_DeltaDate :: "EquityVolSurface \<Rightarrow> real \<Rightarrow> nat \<times> nat" where
  "bracket_DeltaDate self tau =
     (let num_curves = numExpiryDates self
      in if num_curves = 1 then (0, 0)
         else if tau \<le> texp self ! 0 then (0, 0)
         else if tau > last (texp self) then
           (length (texp self) - 1, length (texp self) - 1)
         else bracket_scan (texp self) tau [1..<num_curves])"

subsection \<open>Queries\<close>

text \<open>
  A query is a method of the surface: it returns its result together with the surface
  as the call leaves it.
\<close>

definition volatilityFromStrikeDate ::
  "env \<Rightarrow> EquityVolSurface \<Rightarrow> real \<Rightarrow> Date \<Rightarrow> (error + real) \<times> EquityVolSurface" where
  "volatilityFromStrikeDate env self K expiry_date =
     (let tau = (expiry_date - valuation_date self) / gDaysInYear env;
          volTypeValue = fvt_value env (volatility_function_type self);
          index0 = fst (bracket_StrikeDate self tau);
          index1 = snd (bracket_StrikeDate self tau);
          fwd0 = F0T self ! index0;
          fwd1 = F0T self ! index1;
          t0 = texp self ! index0;
          t1 = texp self ! index1
      in case volFunction env volTypeValue (parameters self ! index0) fwd0 K t0 of
           Inl e \<Rightarrow> (Inl e, self)
         | Inr vol0 \<Rightarrow>
             (case (if index1 \<noteq> index0
                    then volFunction env volTypeValue (parameters self ! index1) fwd1 K t1
                    else Inr vol0) of
                Inl e \<Rightarrow> (Inl e, self)
              | Inr vol1 \<Rightarrow>
                  let vart0 = vol0 * vol0 * t0;
                      vart1 = vol1 * vol1 * t1
                  in if \<bar>t1 - t0\<bar> > 1 / 10 ^ 6 then
                       let vart = ((tau - t0) * vart1 + (t1 - tau) * vart0) / (t1 - t0)
                       in if vart < 0 then (Inl (FinError ''Negative variance.''), self)
                          else (Inr (sqrt (vart / tau)), self)
                     else (Inr vol1, self)))"

text \<open>
  \<^verbatim>\<open>volatilityFromDeltaDate\<close>. \<^verbatim>\<open>K1\<close> is bound only when the bracket indices differ.
\<close>

definition volatilityFromDeltaDate ::
  "env \<Rightarrow> EquityVolSurface \<Rightarrow> real \<Rightarrow> Date \<Rightarrow> 'm option
     \<Rightarrow> (error + real \<times> real) \<times> EquityVolSurface" where
  "volatilityFromDeltaDate env self callDelta expiry_date deltaMethod =
     (let tau = (expiry_date - valuation_date self) / gDaysInYear env;
          volTypeValue = fvt_value env (volatility_function_type self);
          s = stock_price self;
          index0 = fst (bracket_DeltaDate self tau);
          index1 = snd (bracket_DeltaDate self tau);
          fwd0 = F0T self ! index0;
          fwd1 = F0T self ! index1;
          t0 = texp self ! index0;
          t1 = texp self ! index1;
          initialGuess = stock_price self
      in case solveForSmileStrike env s tau (r_arr self ! index0) (q_arr self ! index0)
                (EUROPEAN_CALL_value env) volTypeValue callDelta initialGuess
                (parameters self ! index0) of
           Inl e \<Rightarrow> (Inl e, self)
         | Inr K0 \<Rightarrow>
        (case volFunction env volTypeValue (parameters self ! index0) fwd0 K0 t0 of
           Inl e \<Rightarrow> (Inl e, self)
         | Inr vol0 \<Rightarrow>
        (case (if index1 \<noteq> index0 then
                 (case solveForSmileStrike env s tau (r_arr self ! index1)
                         (q_arr self ! index1) (EUROPEAN_CALL_value env) volTypeValue
                         callDelta initialGuess (parameters self ! index1) of
                    Inl e \<Rightarrow> Inl e
                  | Inr K1 \<Rightarrow>
                      (case volFunction env volTypeValue (parameters self ! index1)
                              fwd1 K1 t1 of
                         Inl e \<Rightarrow> Inl e
                       | Inr vol1 \<Rightarrow> Inr (Some K1, vol1)))
               else Inr (None, vol0)) of
           Inl e \<Rightarrow> (Inl e, self)
         | Inr (K1_opt, vol1) \<Rightarrow>
             let vart0 = vol0 * vol0 * t0;
                 vart1 = vol1 * vol1 * t1
             in if \<bar>t1 - t0\<bar> > 1 / 10 ^ 6 then
                  (case K1_opt of
                     None \<Rightarrow> (Inl (UnboundLocalError ''K1''), self)
                   | Some K1 \<Rightarrow>
                       let vart = ((tau - t0) * vart1 + (t1 - tau) * vart0) / (t1 - t0);
                           kt = ((tau - t0) * K1 + (t1 - tau) * K0) / (t1 - t0)
                       in if vart < 0 then
                            (Inl (FinError
                               ''Failed interpolation due to negative variance.''), self)
                          else (Inr (sqrt (vart / tau), kt), self))
                else (Inr (vol0, K0), self))))"

text \<open>
  In the words of claim C10: the strike of the delta query at the expiry \<open>i\<close> of the
  bracket. The objective of the search is the inverse normal of the absolute target
  delta minus the inverse normal of the absolute delta of a European call, at the
  volatility that the smile of expiry \<open>i\<close> gives at the strike; the search starts at the
  spot, with the tolerance \<open>1e-8\<close> and 50 iterations.
\<close>

definition call_delta_objective ::
  "env \<Rightarrow> EquityVolSurface \<Rightarrow> real \<Rightarrow> real \<Rightarrow> nat \<Rightarrow> real \<Rightarrow> error + real" where
  "call_delta_objective env self callDelta tau i K =
     (case volFunction env (fvt_value env (volatility_function_type self))
             (parameters self ! i)
             (stock_price self * exp ((r_arr self ! i - q_arr self ! i) * tau)) K tau of
        Inl e \<Rightarrow> Inl e
      | Inr v \<Rightarrow>
          Inr (norminvcdf env \<bar>callDelta\<bar>
               - norminvcdf env
                   \<bar>bs_delta env (stock_price self) tau K (r_arr self ! i) (q_arr self ! i) v
                      (EUROPEAN_CALL_value env)\<bar>))"

definition call_delta_strike ::
  "env \<Rightarrow> EquityVolSurface \<Rightarrow> real \<Rightarrow> real \<Rightarrow> nat \<Rightarrow> error + real" where
  "call_delta_strike env self callDelta tau i =
     fst (newton_secant env (call_delta_objective env self callDelta tau i)
            (stock_price self) (1 / 10 ^ 8) 50)"

subsection \<open>Construction\<close>

text \<open>
  The parameter count of each family, as \<^verbatim>\<open>_buildVolSurface\<close> selects it. Every
  member of the enumeration has a branch.
\<close>

definition num_parameters_of :: "FinVolFunctionTypes \<Rightarrow> nat" where
  "num_parameters_of ty =
     (if ty = CLARK then 3
      else if ty = SABR_BETA_ONE then 3
      else if ty = SABR_BETA_HALF then 3
      else if ty = BBG then 3
      else if ty = SABR then 4
      else if ty = CLARK5 then 5
      else if ty = SVI then 5
      else 5)"

text \<open>
  The body of the first loop of \<^verbatim>\<open>_buildVolSurface\<close>: the time to expiry, the zero
  rate, the dividend yield and the forward of expiry \<open>i\<close>, written into the arrays.
\<close>

definition curve_step :: "env \<Rightarrow> nat \<Rightarrow> EquityVolSurface \<Rightarrow> error + EquityVolSurface" where
  "curve_step env i self =
     (let s = stock_price self;
          spotDate = valuation_date self;
          expiry_date = expiry_dates self ! i;
          tau = (expiry_date - spotDate) / gDaysInYear env;
          disDF = discount_curve self tau;
          divDF = dividend_curve self tau;
          f = s * divDF / disDF
      in Inr (self\<lparr>texp := (texp self)[i := tau],
                   r_arr := (r_arr self)[i := - ln disDF / tau],
                   q_arr := (q_arr self)[i := - ln divDF / tau],
                   F0T := (F0T self)[i := f]\<rparr>))"

text \<open>
  \<^verbatim>\<open>self._parameters[i,:] = res\<close>: the row takes a vector of its own length, a vector
  of length one is repeated along the row, and any other length is refused.
\<close>

definition assign_row :: "real list \<Rightarrow> real list \<Rightarrow> error + real list" where
  "assign_row row res =
     (if length res = length row then Inr res
      else if length res = 1 then Inr (replicate (length row) (res ! 0))
      else Inl ValueError)"

text \<open>
  The body of the calibration loop, on the surface and the list \<^verbatim>\<open>xinits\<close>: expiry
  \<open>i\<close> is calibrated from \<^verbatim>\<open>xinits[i]\<close>, and its result is appended to the list.
\<close>

definition calib_step ::
  "env \<Rightarrow> FinSolverTypes \<Rightarrow> nat \<Rightarrow> EquityVolSurface \<times> real list list
     \<Rightarrow> error + EquityVolSurface \<times> real list list" where
  "calib_step env finSolverType i st =
     (case st of (self, xinits) \<Rightarrow>
        let s = stock_price self;
            volTypeValue = fvt_value env (volatility_function_type self);
            t = texp self ! i;
            r = r_arr self ! i;
            q = q_arr self ! i
        in case fst (solveToHorizon env s t r q (strikes self) i (volatility_grid self)
                       volTypeValue (xinits ! i) finSolverType) of
             Inl e \<Rightarrow> Inl e
           | Inr res \<Rightarrow>
               (case assign_row (parameters self ! i) res of
                  Inl e \<Rightarrow> Inl e
                | Inr row \<Rightarrow>
                    Inr (self\<lparr>parameters := (parameters self)[i := row]\<rparr>,
                         xinits @ [res])))"

text \<open>The surface after the allocation of the arrays and the first loop.\<close>

definition curve_loop :: "env \<Rightarrow> EquityVolSurface \<Rightarrow> error + EquityVolSurface" where
  "curve_loop env self =
     (let num_parameters = num_parameters_of (volatility_function_type self);
          numExpiryDates = numExpiryDates self
      in for_loop [0..<numExpiryDates] (curve_step env)
           (self\<lparr>parameters := replicate numExpiryDates (replicate num_parameters 0),
                 texp := replicate numExpiryDates 0,
                 F0T := replicate numExpiryDates 0,
                 r_arr := replicate numExpiryDates 0,
                 q_arr := replicate numExpiryDates 0\<rparr>))"

text \<open>The calibration loop, started from the zero vector.\<close>

definition calib_loop ::
  "env \<Rightarrow> FinSolverTypes \<Rightarrow> EquityVolSurface \<Rightarrow> error + EquityVolSurface \<times> real list list" where
  "calib_loop env finSolverType self =
     (let num_parameters = num_parameters_of (volatility_function_type self);
          xinit = replicate num_parameters 0;
          xinits = [] @ [xinit]
      in for_loop [0..<numExpiryDates self] (calib_step env finSolverType) (self, xinits))"

definition buildVolSurface ::
  "env \<Rightarrow> EquityVolSurface \<Rightarrow> FinSolverTypes \<Rightarrow> error + EquityVolSurface" where
  "buildVolSurface env self finSolverType =
     (case curve_loop env self of
        Inl e \<Rightarrow> Inl e
      | Inr self1 \<Rightarrow>
          (case calib_loop env finSolverType self1 of
             Inl e \<Rightarrow> Inl e
           | Inr (self2, xinits) \<Rightarrow> Inr self2))"

text \<open>
  \<^verbatim>\<open>EquityVolSurface.__init__\<close>: the dimension checks, then the construction. The
  arrays do not exist before \<^verbatim>\<open>_buildVolSurface\<close> allocates them.
\<close>

definition EquityVolSurface_init ::
  "env \<Rightarrow> Date \<Rightarrow> real \<Rightarrow> (real \<Rightarrow> real) \<Rightarrow> (real \<Rightarrow> real) \<Rightarrow> Date list \<Rightarrow> real list
     \<Rightarrow> real list list \<Rightarrow> FinVolFunctionTypes \<Rightarrow> FinSolverTypes \<Rightarrow> error + EquityVolSurface" where
  "EquityVolSurface_init env valuation_date' stock_price' discount_curve' dividend_curve'
       expiry_dates' strikes' volatility_grid' volatility_function_type' finSolverType =
     (let nExpiryDates = length expiry_dates';
          nStrikes = length strikes';
          n = length volatility_grid'
      in case volatility_grid' of
           [] \<Rightarrow> Inl IndexError
         | row0 # _ \<Rightarrow>
             let m = length row0
             in if n \<noteq> nExpiryDates then
                  Inl (FinError ''1st dimension of vol grid is not nExpiryDates'')
                else if m \<noteq> nStrikes then
                  Inl (FinError ''2nd dimension of the vol matrix is not nStrikes'')
                else
                  buildVolSurface env
                    \<lparr>valuation_date = valuation_date',
                     stock_price = stock_price',
                     discount_curve = discount_curve',
                     dividend_curve = dividend_curve',
                     strikes = strikes',
                     numStrikes = length strikes',
                     expiry_dates = expiry_dates',
                     numExpiryDates = length expiry_dates',
                     volatility_grid = volatility_grid',
                     volatility_function_type = volatility_function_type',
                     parameters = [],
                     texp = [],
                     F0T = [],
                     r_arr = [],
                     q_arr = []\<rparr>
                    finSolverType)"

text \<open>
  What construction establishes and every query relies on: one entry per expiry in
  each array, at least one expiry, and the times to expiry computed from the dates.
\<close>

definition surface_ok :: "env \<Rightarrow> EquityVolSurface \<Rightarrow> bool" where
  "surface_ok env self \<longleftrightarrow>
     numExpiryDates self = length (expiry_dates self) \<and>
     1 \<le> numExpiryDates self \<and>
     length (parameters self) = numExpiryDates self \<and>
     length (F0T self) = numExpiryDates self \<and>
     length (r_arr self) = numExpiryDates self \<and>
     length (q_arr self) = numExpiryDates self \<and>
     texp self =
       map (\<lambda>d. (d - valuation_date self) / gDaysInYear env) (expiry_dates self)"

subsection \<open>Concrete collaborators and surfaces\<close>

text \<open>
  A small instance of the collaborators, on which the model runs: a year of 365 days,
  distinct values for the enumeration members, a smile with a level and a skew in the
  relative distance of the strike from the forward, a call delta that falls linearly
  in the strike, the steeper the higher the volatility, an identity in place of the
  inverse normal distribution function, the secant step as the update of the root
  search, a simplex search that raises, and a \<^verbatim>\<open>minimize\<close> that, for conjugate
  gradient, searches a fixed list of candidates for a point with a smaller objective
  than the start and reports success, and for any other method returns the start and
  reports failure.
\<close>

definition demo_fvt_value :: "FinVolFunctionTypes \<Rightarrow> int" where
  "demo_fvt_value ty =
     (case ty of CLARK \<Rightarrow> 0 | SABR \<Rightarrow> 1 | SABR_BETA_ONE \<Rightarrow> 2 | SABR_BETA_HALF \<Rightarrow> 3
               | BBG \<Rightarrow> 4 | CLARK5 \<Rightarrow> 5 | SVI \<Rightarrow> 6 | SSVI \<Rightarrow> 7)"

definition demo_smile :: "real list \<Rightarrow> real \<Rightarrow> real \<Rightarrow> real \<Rightarrow> real" where
  "demo_smile params f k t = params ! 0 + params ! 1 * (k - f) / f"

fun grid_search ::
  "(real list \<Rightarrow> error + real) \<Rightarrow> real list list \<Rightarrow> real list \<Rightarrow> real list" where
  "grid_search objective [] best = best"
| "grid_search objective (c # cs) best =
     grid_search objective cs
       (case objective c of
          Inl e \<Rightarrow> best
        | Inr vc \<Rightarrow>
            (case objective best of
               Inl e \<Rightarrow> best
             | Inr vb \<Rightarrow> if vc < vb then c else best))"

definition demo_candidates :: "real list list" where
  "demo_candidates = [[1 / 5, 0, 0], [3 / 10, 0, 0], [2 / 5, 0, 0], [1 / 5, - 1, 0]]"

definition demo_delta :: "real \<Rightarrow> real \<Rightarrow> real \<Rightarrow> real \<Rightarrow> real \<Rightarrow> real \<Rightarrow> int \<Rightarrow> real" where
  "demo_delta s t k r q v option_type_value =
     (if option_type_value = 1 then 1 - k * v / 40 else - (k * v / 40))"

definition demo_update :: "real \<Rightarrow> real \<Rightarrow> real \<Rightarrow> real \<Rightarrow> real" where
  "demo_update p0 q0 p1 q1 = (if q1 = q0 then p1 else p1 - q1 * (p1 - p0) / (q1 - q0))"

definition demo_env :: env where
  "demo_env =
     \<lparr>gDaysInYear = 365,
      fvt_value = demo_fvt_value,
      EUROPEAN_CALL_value = 1,
      vol_function_clark = demo_smile,
      vol_function_sabr = demo_smile,
      vol_function_sabr_BETA_ONE = demo_smile,
      vol_function_sabr_BETA_HALF = demo_smile,
      vol_Function_bloomberg = demo_smile,
      vol_function_svi = demo_smile,
      vol_function_ssvi = demo_smile,
      bs_delta = demo_delta,
      norminvcdf = (\<lambda>u. u),
      secant_start = (\<lambda>x0. x0 + 1),
      secant_update = demo_update,
      nelder_mead = (\<lambda>objective x0 tol_f tol_x max_iter. Inl (SolverException ''simplex'')),
      minimize = (\<lambda>objective x0 method tol.
                    if method = ''CG''
                    then Inr (OptimizeResult (grid_search objective demo_candidates x0) True)
                    else Inr (OptimizeResult x0 False))\<rparr>"

text \<open>
  A market: a valuation date at day 0, a spot of 100, curves with discount factor one,
  the strikes 90, 100 and 110 and the Clark family. \<open>market_surface\<close> is the surface as
  \<^verbatim>\<open>__init__\<close> hands it to \<^verbatim>\<open>_buildVolSurface\<close> for a list of expiry dates and a grid
  of market volatilities.
\<close>

definition market_surface :: "Date list \<Rightarrow> real list list \<Rightarrow> EquityVolSurface" where
  "market_surface dates grid =
     \<lparr>valuation_date = 0,
      stock_price = 100,
      discount_curve = (\<lambda>t. 1),
      dividend_curve = (\<lambda>t. 1),
      strikes = [90, 100, 110],
      numStrikes = length [90, 100, 110 :: real],
      expiry_dates = dates,
      numExpiryDates = length dates,
      volatility_grid = grid,
      volatility_function_type = CLARK,
      parameters = [],
      texp = [],
      F0T = [],
      r_arr = [],
      q_arr = []\<rparr>"

text \<open>
  Three surfaces as construction leaves them on this market. The first has expiries
  after one, two and three years and flat market smiles. The second has a market smile
  at the middle expiry that falls from \<open>3/10\<close> to \<open>1/10\<close> over the strikes, fitted
  exactly by the level \<open>1/5\<close> and the skew \<open>-1\<close>. The third has two expiries on the
  same day, 8.64 seconds apart.
\<close>

definition demo_grid :: "real list list" where
  "demo_grid = [[1 / 5, 1 / 5, 1 / 5], [3 / 10, 3 / 10, 3 / 10], [2 / 5, 2 / 5, 2 / 5]]"

definition skew_grid :: "real list list" where
  "skew_grid = [[1 / 5, 1 / 5, 1 / 5], [3 / 10, 1 / 5, 1 / 10], [2 / 5, 2 / 5, 2 / 5]]"

definition close_grid :: "real list list" where
  "close_grid = [[1 / 5, 1 / 5, 1 / 5], [3 / 10, 3 / 10, 3 / 10]]"

definition demo_surface :: EquityVolSurface where
  "demo_surface =
     (market_surface [365, 730, 1095] demo_grid)
       \<lparr>parameters := [[1 / 5, 0, 0], [3 / 10, 0, 0], [2 / 5, 0, 0]],
        texp := [1, 2, 3],
        F0T := [100, 100, 100],
        r_arr := [0, 0, 0],
        q_arr := [0, 0, 0]\<rparr>"

definition skew_surface :: EquityVolSurface where
  "skew_surface =
     (market_surface [365, 730, 1095] skew_grid)
       \<lparr>parameters := [[1 / 5, 0, 0], [1 / 5, - 1, 0], [2 / 5, 0, 0]],
        texp := [1, 2, 3],
        F0T := [100, 100, 100],
        r_arr := [0, 0, 0],
        q_arr := [0, 0, 0]\<rparr>"

definition close_surface :: EquityVolSurface where
  "close_surface =
     (market_surface [365, 365 + 1 / 10000] close_grid)
       \<lparr>parameters := [[1 / 5, 0, 0], [3 / 10, 0, 0]],
        texp := [1, 1 + 1 / 3650000],
        F0T := [100, 100],
        r_arr := [0, 0],
        q_arr := [0, 0]\<rparr>"

section \<open>Properties\<close>

subsection \<open>The concrete collaborators, evaluated\<close>

text \<open>
  The fields of the concrete collaborators and the construction of the three concrete
  surfaces from their market data, evaluated step by step: the first loop, each
  calibration, the calibration loop, and the constructor.
\<close>

lemma demo_env_sel:
  "gDaysInYear demo_env = 365"
  "fvt_value demo_env = demo_fvt_value"
  "EUROPEAN_CALL_value demo_env = 1"
  "vol_function_clark demo_env = demo_smile"
  "vol_function_sabr demo_env = demo_smile"
  "vol_function_sabr_BETA_ONE demo_env = demo_smile"
  "vol_function_sabr_BETA_HALF demo_env = demo_smile"
  "vol_Function_bloomberg demo_env = demo_smile"
  "vol_function_svi demo_env = demo_smile"
  "vol_function_ssvi demo_env = demo_smile"
  "bs_delta demo_env = demo_delta"
  "norminvcdf demo_env = (\<lambda>u. u)"
  "secant_start demo_env = (\<lambda>x0. x0 + 1)"
  "secant_update demo_env = demo_update"
  "nelder_mead demo_env =
     (\<lambda>objective x0 tol_f tol_x max_iter. Inl (SolverException ''simplex''))"
  "minimize demo_env =
     (\<lambda>objective x0 method tol.
        if method = ''CG''
        then Inr (OptimizeResult (grid_search objective demo_candidates x0) True)
        else Inr (OptimizeResult x0 False))"
  by (simp_all add: demo_env_def)

lemma volFunction_demo:
  "volFunction demo_env 0 params f k t = Inr (demo_smile params f k t)"
  by (simp add: volFunction_def demo_env_sel demo_fvt_value_def)

text \<open>The objective on a grid with three strikes.\<close>

lemma obj_demo:
  "length (grid ! 0) = 3 \<Longrightarrow>
   obj demo_env (s, t, r, q, [k0, k1, k2], i, grid, 0) params =
     Inr ((demo_smile params (s * exp ((r - q) * t)) k0 t - grid ! i ! 0)
            * (demo_smile params (s * exp ((r - q) * t)) k0 t - grid ! i ! 0)
          + (demo_smile params (s * exp ((r - q) * t)) k1 t - grid ! i ! 1)
            * (demo_smile params (s * exp ((r - q) * t)) k1 t - grid ! i ! 1)
          + (demo_smile params (s * exp ((r - q) * t)) k2 t - grid ! i ! 2)
            * (demo_smile params (s * exp ((r - q) * t)) k2 t - grid ! i ! 2))"
  by (auto simp: obj_def volFunction_demo Let_def upt_rec eval_nat_numeral)

lemma upt_0_3: "[0..<3] = [0, 1, 2]"
  by (simp add: upt_rec eval_nat_numeral)

lemma upt_0_2: "[0..<2] = [0, 1]"
  by (simp add: upt_rec eval_nat_numeral)

lemma list_update_2: "(a # b # c # xs)[2 := y] = a # b # y # xs"
  by (simp add: numeral_2_eq_2)

text \<open>The construction of \<open>demo_surface\<close>, step by step.\<close>

lemma demo_surface_sel:
  "valuation_date demo_surface = 0"
  "stock_price demo_surface = 100"
  "discount_curve demo_surface = (\<lambda>t. 1)"
  "dividend_curve demo_surface = (\<lambda>t. 1)"
  "strikes demo_surface = [90, 100, 110]"
  "expiry_dates demo_surface = [365, 730, 1095]"
  "numExpiryDates demo_surface = 3"
  "volatility_grid demo_surface = demo_grid"
  "volatility_function_type demo_surface = CLARK"
  "parameters demo_surface = [[1 / 5, 0, 0], [3 / 10, 0, 0], [2 / 5, 0, 0]]"
  "texp demo_surface = [1, 2, 3]"
  "F0T demo_surface = [100, 100, 100]"
  "r_arr demo_surface = [0, 0, 0]"
  "q_arr demo_surface = [0, 0, 0]"
  by (simp_all add: demo_surface_def market_surface_def)

lemma curve_loop_demo:
  "curve_loop demo_env (market_surface [365, 730, 1095] demo_grid) =
     Inr (demo_surface\<lparr>parameters := [[0, 0, 0], [0, 0, 0], [0, 0, 0]]\<rparr>)"
  by (simp add: curve_loop_def curve_step_def demo_env_sel demo_surface_def market_surface_def
        num_parameters_of_def Let_def upt_rec eval_nat_numeral)

lemma solveToHorizon_demo_0:
  "solveToHorizon demo_env 100 1 0 0 [90, 100, 110] 0 demo_grid 0
     [0, 0, 0] CONJUGATE_GRADIENT =
   (Inr [1 / 5, 0, 0], [Called_minimize ''CG''])"
  by (simp add: solveToHorizon_def primary_run_def primary_call_def demo_env_sel
        demo_candidates_def demo_grid_def obj_demo demo_smile_def)

lemma calib_step_demo_0:
  "calib_step demo_env CONJUGATE_GRADIENT 0
     (demo_surface\<lparr>parameters := [[0, 0, 0], [0, 0, 0], [0, 0, 0]]\<rparr>,
      [[0, 0, 0]]) =
   Inr (demo_surface\<lparr>parameters := [[1 / 5, 0, 0], [0, 0, 0], [0, 0, 0]]\<rparr>,
        [[0, 0, 0], [1 / 5, 0, 0]])"
  by (simp add: calib_step_def Let_def demo_surface_sel demo_env_sel demo_fvt_value_def
        solveToHorizon_demo_0 assign_row_def list_update_2)

lemma solveToHorizon_demo_1:
  "solveToHorizon demo_env 100 2 0 0 [90, 100, 110] (Suc 0) demo_grid 0
     [1 / 5, 0, 0] CONJUGATE_GRADIENT =
   (Inr [3 / 10, 0, 0], [Called_minimize ''CG''])"
  by (simp add: solveToHorizon_def primary_run_def primary_call_def demo_env_sel
        demo_candidates_def demo_grid_def obj_demo demo_smile_def)

lemma calib_step_demo_1:
  "calib_step demo_env CONJUGATE_GRADIENT 1
     (demo_surface\<lparr>parameters := [[1 / 5, 0, 0], [0, 0, 0], [0, 0, 0]]\<rparr>,
      [[0, 0, 0], [1 / 5, 0, 0]]) =
   Inr (demo_surface\<lparr>parameters := [[1 / 5, 0, 0], [3 / 10, 0, 0], [0, 0, 0]]\<rparr>,
        [[0, 0, 0], [1 / 5, 0, 0], [3 / 10, 0, 0]])"
  by (simp add: calib_step_def Let_def demo_surface_sel demo_env_sel demo_fvt_value_def
        solveToHorizon_demo_1 assign_row_def list_update_2)

lemma solveToHorizon_demo_2:
  "solveToHorizon demo_env 100 3 0 0 [90, 100, 110] 2 demo_grid 0
     [3 / 10, 0, 0] CONJUGATE_GRADIENT =
   (Inr [2 / 5, 0, 0], [Called_minimize ''CG''])"
  by (simp add: solveToHorizon_def primary_run_def primary_call_def demo_env_sel
        demo_candidates_def demo_grid_def obj_demo demo_smile_def)

lemma calib_step_demo_2:
  "calib_step demo_env CONJUGATE_GRADIENT 2
     (demo_surface\<lparr>parameters := [[1 / 5, 0, 0], [3 / 10, 0, 0], [0, 0, 0]]\<rparr>,
      [[0, 0, 0], [1 / 5, 0, 0], [3 / 10, 0, 0]]) =
   Inr (demo_surface\<lparr>parameters := [[1 / 5, 0, 0], [3 / 10, 0, 0], [2 / 5, 0, 0]]\<rparr>,
        [[0, 0, 0], [1 / 5, 0, 0], [3 / 10, 0, 0], [2 / 5, 0, 0]])"
  by (simp add: calib_step_def Let_def demo_surface_sel demo_env_sel demo_fvt_value_def
        solveToHorizon_demo_2 assign_row_def list_update_2)

lemma calib_loop_demo:
  "calib_loop demo_env CONJUGATE_GRADIENT (demo_surface\<lparr>parameters := [[0, 0, 0], [0, 0, 0], [0, 0, 0]]\<rparr>) =
     Inr (demo_surface, [[0, 0, 0], [1 / 5, 0, 0], [3 / 10, 0, 0], [2 / 5, 0, 0]])"
proof -
  have n: "[0..<numExpiryDates (demo_surface\<lparr>parameters := [[0, 0, 0], [0, 0, 0], [0, 0, 0]]\<rparr>)] = [0, 1, 2]"
    by (simp add: demo_surface_sel upt_0_3)
  have x0: "[] @ [replicate (num_parameters_of (volatility_function_type
              (demo_surface\<lparr>parameters := [[0, 0, 0], [0, 0, 0], [0, 0, 0]]\<rparr>))) 0] = [[0, 0, 0 :: real]]"
    by (simp add: demo_surface_sel num_parameters_of_def eval_nat_numeral)
  have fin: "demo_surface\<lparr>parameters := [[1 / 5, 0, 0], [3 / 10, 0, 0], [2 / 5, 0, 0]]\<rparr> = demo_surface"
    by (simp add: demo_surface_def)
  show ?thesis
    unfolding calib_loop_def Let_def n x0
    by (simp only: for_loop.simps calib_step_demo_0 calib_step_demo_1 calib_step_demo_2 sum.case fin)
qed

lemma buildVolSurface_demo:
  "buildVolSurface demo_env (market_surface [365, 730, 1095] demo_grid) CONJUGATE_GRADIENT = Inr demo_surface"
  by (simp only: buildVolSurface_def curve_loop_demo calib_loop_demo sum.case prod.case)

lemma init_demo:
  "EquityVolSurface_init demo_env 0 100 (\<lambda>t. 1) (\<lambda>t. 1) [365, 730, 1095] [90, 100, 110] demo_grid
     CLARK CONJUGATE_GRADIENT = Inr demo_surface"
proof -
  have "EquityVolSurface_init demo_env 0 100 (\<lambda>t. 1) (\<lambda>t. 1) [365, 730, 1095] [90, 100, 110] demo_grid
     CLARK CONJUGATE_GRADIENT = buildVolSurface demo_env (market_surface [365, 730, 1095] demo_grid) CONJUGATE_GRADIENT"
    by (simp add: EquityVolSurface_init_def market_surface_def demo_grid_def Let_def)
  then show ?thesis by (simp only: buildVolSurface_demo)
qed

text \<open>The construction of \<open>skew_surface\<close>, step by step.\<close>

lemma skew_surface_sel:
  "valuation_date skew_surface = 0"
  "stock_price skew_surface = 100"
  "discount_curve skew_surface = (\<lambda>t. 1)"
  "dividend_curve skew_surface = (\<lambda>t. 1)"
  "strikes skew_surface = [90, 100, 110]"
  "expiry_dates skew_surface = [365, 730, 1095]"
  "numExpiryDates skew_surface = 3"
  "volatility_grid skew_surface = skew_grid"
  "volatility_function_type skew_surface = CLARK"
  "parameters skew_surface = [[1 / 5, 0, 0], [1 / 5, - 1, 0], [2 / 5, 0, 0]]"
  "texp skew_surface = [1, 2, 3]"
  "F0T skew_surface = [100, 100, 100]"
  "r_arr skew_surface = [0, 0, 0]"
  "q_arr skew_surface = [0, 0, 0]"
  by (simp_all add: skew_surface_def market_surface_def)

lemma curve_loop_skew:
  "curve_loop demo_env (market_surface [365, 730, 1095] skew_grid) =
     Inr (skew_surface\<lparr>parameters := [[0, 0, 0], [0, 0, 0], [0, 0, 0]]\<rparr>)"
  by (simp add: curve_loop_def curve_step_def demo_env_sel skew_surface_def market_surface_def
        num_parameters_of_def Let_def upt_rec eval_nat_numeral)

lemma solveToHorizon_skew_0:
  "solveToHorizon demo_env 100 1 0 0 [90, 100, 110] 0 skew_grid 0
     [0, 0, 0] CONJUGATE_GRADIENT =
   (Inr [1 / 5, 0, 0], [Called_minimize ''CG''])"
  by (simp add: solveToHorizon_def primary_run_def primary_call_def demo_env_sel
        demo_candidates_def skew_grid_def obj_demo demo_smile_def)

lemma calib_step_skew_0:
  "calib_step demo_env CONJUGATE_GRADIENT 0
     (skew_surface\<lparr>parameters := [[0, 0, 0], [0, 0, 0], [0, 0, 0]]\<rparr>,
      [[0, 0, 0]]) =
   Inr (skew_surface\<lparr>parameters := [[1 / 5, 0, 0], [0, 0, 0], [0, 0, 0]]\<rparr>,
        [[0, 0, 0], [1 / 5, 0, 0]])"
  by (simp add: calib_step_def Let_def skew_surface_sel demo_env_sel demo_fvt_value_def
        solveToHorizon_skew_0 assign_row_def list_update_2)

lemma solveToHorizon_skew_1:
  "solveToHorizon demo_env 100 2 0 0 [90, 100, 110] (Suc 0) skew_grid 0
     [1 / 5, 0, 0] CONJUGATE_GRADIENT =
   (Inr [1 / 5, - 1, 0], [Called_minimize ''CG''])"
  by (simp add: solveToHorizon_def primary_run_def primary_call_def demo_env_sel
        demo_candidates_def skew_grid_def obj_demo demo_smile_def)

lemma calib_step_skew_1:
  "calib_step demo_env CONJUGATE_GRADIENT 1
     (skew_surface\<lparr>parameters := [[1 / 5, 0, 0], [0, 0, 0], [0, 0, 0]]\<rparr>,
      [[0, 0, 0], [1 / 5, 0, 0]]) =
   Inr (skew_surface\<lparr>parameters := [[1 / 5, 0, 0], [1 / 5, - 1, 0], [0, 0, 0]]\<rparr>,
        [[0, 0, 0], [1 / 5, 0, 0], [1 / 5, - 1, 0]])"
  by (simp add: calib_step_def Let_def skew_surface_sel demo_env_sel demo_fvt_value_def
        solveToHorizon_skew_1 assign_row_def list_update_2)

lemma solveToHorizon_skew_2:
  "solveToHorizon demo_env 100 3 0 0 [90, 100, 110] 2 skew_grid 0
     [1 / 5, - 1, 0] CONJUGATE_GRADIENT =
   (Inr [2 / 5, 0, 0], [Called_minimize ''CG''])"
  by (simp add: solveToHorizon_def primary_run_def primary_call_def demo_env_sel
        demo_candidates_def skew_grid_def obj_demo demo_smile_def)

lemma calib_step_skew_2:
  "calib_step demo_env CONJUGATE_GRADIENT 2
     (skew_surface\<lparr>parameters := [[1 / 5, 0, 0], [1 / 5, - 1, 0], [0, 0, 0]]\<rparr>,
      [[0, 0, 0], [1 / 5, 0, 0], [1 / 5, - 1, 0]]) =
   Inr (skew_surface\<lparr>parameters := [[1 / 5, 0, 0], [1 / 5, - 1, 0], [2 / 5, 0, 0]]\<rparr>,
        [[0, 0, 0], [1 / 5, 0, 0], [1 / 5, - 1, 0], [2 / 5, 0, 0]])"
  by (simp add: calib_step_def Let_def skew_surface_sel demo_env_sel demo_fvt_value_def
        solveToHorizon_skew_2 assign_row_def list_update_2)

lemma calib_loop_skew:
  "calib_loop demo_env CONJUGATE_GRADIENT (skew_surface\<lparr>parameters := [[0, 0, 0], [0, 0, 0], [0, 0, 0]]\<rparr>) =
     Inr (skew_surface, [[0, 0, 0], [1 / 5, 0, 0], [1 / 5, - 1, 0], [2 / 5, 0, 0]])"
proof -
  have n: "[0..<numExpiryDates (skew_surface\<lparr>parameters := [[0, 0, 0], [0, 0, 0], [0, 0, 0]]\<rparr>)] = [0, 1, 2]"
    by (simp add: skew_surface_sel upt_0_3)
  have x0: "[] @ [replicate (num_parameters_of (volatility_function_type
              (skew_surface\<lparr>parameters := [[0, 0, 0], [0, 0, 0], [0, 0, 0]]\<rparr>))) 0] = [[0, 0, 0 :: real]]"
    by (simp add: skew_surface_sel num_parameters_of_def eval_nat_numeral)
  have fin: "skew_surface\<lparr>parameters := [[1 / 5, 0, 0], [1 / 5, - 1, 0], [2 / 5, 0, 0]]\<rparr> = skew_surface"
    by (simp add: skew_surface_def)
  show ?thesis
    unfolding calib_loop_def Let_def n x0
    by (simp only: for_loop.simps calib_step_skew_0 calib_step_skew_1 calib_step_skew_2 sum.case fin)
qed

lemma buildVolSurface_skew:
  "buildVolSurface demo_env (market_surface [365, 730, 1095] skew_grid) CONJUGATE_GRADIENT = Inr skew_surface"
  by (simp only: buildVolSurface_def curve_loop_skew calib_loop_skew sum.case prod.case)

lemma init_skew:
  "EquityVolSurface_init demo_env 0 100 (\<lambda>t. 1) (\<lambda>t. 1) [365, 730, 1095] [90, 100, 110] skew_grid
     CLARK CONJUGATE_GRADIENT = Inr skew_surface"
proof -
  have "EquityVolSurface_init demo_env 0 100 (\<lambda>t. 1) (\<lambda>t. 1) [365, 730, 1095] [90, 100, 110] skew_grid
     CLARK CONJUGATE_GRADIENT = buildVolSurface demo_env (market_surface [365, 730, 1095] skew_grid) CONJUGATE_GRADIENT"
    by (simp add: EquityVolSurface_init_def market_surface_def skew_grid_def Let_def)
  then show ?thesis by (simp only: buildVolSurface_skew)
qed

text \<open>The construction of \<open>close_surface\<close>, step by step.\<close>

lemma close_surface_sel:
  "valuation_date close_surface = 0"
  "stock_price close_surface = 100"
  "discount_curve close_surface = (\<lambda>t. 1)"
  "dividend_curve close_surface = (\<lambda>t. 1)"
  "strikes close_surface = [90, 100, 110]"
  "expiry_dates close_surface = [365, 365 + 1 / 10000]"
  "numExpiryDates close_surface = 2"
  "volatility_grid close_surface = close_grid"
  "volatility_function_type close_surface = CLARK"
  "parameters close_surface = [[1 / 5, 0, 0], [3 / 10, 0, 0]]"
  "texp close_surface = [1, 1 + 1 / 3650000]"
  "F0T close_surface = [100, 100]"
  "r_arr close_surface = [0, 0]"
  "q_arr close_surface = [0, 0]"
  by (simp_all add: close_surface_def market_surface_def)

lemma curve_loop_close:
  "curve_loop demo_env (market_surface [365, 365 + 1 / 10000] close_grid) =
     Inr (close_surface\<lparr>parameters := [[0, 0, 0], [0, 0, 0]]\<rparr>)"
  by (simp add: curve_loop_def curve_step_def demo_env_sel close_surface_def market_surface_def
        num_parameters_of_def Let_def upt_rec eval_nat_numeral)

lemma solveToHorizon_close_0:
  "solveToHorizon demo_env 100 1 0 0 [90, 100, 110] 0 close_grid 0
     [0, 0, 0] CONJUGATE_GRADIENT =
   (Inr [1 / 5, 0, 0], [Called_minimize ''CG''])"
  by (simp add: solveToHorizon_def primary_run_def primary_call_def demo_env_sel
        demo_candidates_def close_grid_def obj_demo demo_smile_def)

lemma calib_step_close_0:
  "calib_step demo_env CONJUGATE_GRADIENT 0
     (close_surface\<lparr>parameters := [[0, 0, 0], [0, 0, 0]]\<rparr>,
      [[0, 0, 0]]) =
   Inr (close_surface\<lparr>parameters := [[1 / 5, 0, 0], [0, 0, 0]]\<rparr>,
        [[0, 0, 0], [1 / 5, 0, 0]])"
  by (simp add: calib_step_def Let_def close_surface_sel demo_env_sel demo_fvt_value_def
        solveToHorizon_close_0 assign_row_def list_update_2)

lemma solveToHorizon_close_1:
  "solveToHorizon demo_env 100 (3650001 / 3650000) 0 0 [90, 100, 110] (Suc 0) close_grid 0
     [1 / 5, 0, 0] CONJUGATE_GRADIENT =
   (Inr [3 / 10, 0, 0], [Called_minimize ''CG''])"
  by (simp add: solveToHorizon_def primary_run_def primary_call_def demo_env_sel
        demo_candidates_def close_grid_def obj_demo demo_smile_def)

lemma calib_step_close_1:
  "calib_step demo_env CONJUGATE_GRADIENT 1
     (close_surface\<lparr>parameters := [[1 / 5, 0, 0], [0, 0, 0]]\<rparr>,
      [[0, 0, 0], [1 / 5, 0, 0]]) =
   Inr (close_surface\<lparr>parameters := [[1 / 5, 0, 0], [3 / 10, 0, 0]]\<rparr>,
        [[0, 0, 0], [1 / 5, 0, 0], [3 / 10, 0, 0]])"
  by (simp add: calib_step_def Let_def close_surface_sel demo_env_sel demo_fvt_value_def
        solveToHorizon_close_1 assign_row_def list_update_2)

lemma calib_loop_close:
  "calib_loop demo_env CONJUGATE_GRADIENT (close_surface\<lparr>parameters := [[0, 0, 0], [0, 0, 0]]\<rparr>) =
     Inr (close_surface, [[0, 0, 0], [1 / 5, 0, 0], [3 / 10, 0, 0]])"
proof -
  have n: "[0..<numExpiryDates (close_surface\<lparr>parameters := [[0, 0, 0], [0, 0, 0]]\<rparr>)] = [0, 1]"
    by (simp add: close_surface_sel upt_0_2)
  have x0: "[] @ [replicate (num_parameters_of (volatility_function_type
              (close_surface\<lparr>parameters := [[0, 0, 0], [0, 0, 0]]\<rparr>))) 0] = [[0, 0, 0 :: real]]"
    by (simp add: close_surface_sel num_parameters_of_def eval_nat_numeral)
  have fin: "close_surface\<lparr>parameters := [[1 / 5, 0, 0], [3 / 10, 0, 0]]\<rparr> = close_surface"
    by (simp add: close_surface_def)
  show ?thesis
    unfolding calib_loop_def Let_def n x0
    by (simp only: for_loop.simps calib_step_close_0 calib_step_close_1 sum.case fin)
qed

lemma buildVolSurface_close:
  "buildVolSurface demo_env (market_surface [365, 365 + 1 / 10000] close_grid) CONJUGATE_GRADIENT = Inr close_surface"
  by (simp only: buildVolSurface_def curve_loop_close calib_loop_close sum.case prod.case)

lemma init_close:
  "EquityVolSurface_init demo_env 0 100 (\<lambda>t. 1) (\<lambda>t. 1) [365, 365 + 1 / 10000] [90, 100, 110] close_grid
     CLARK CONJUGATE_GRADIENT = Inr close_surface"
proof -
  have "EquityVolSurface_init demo_env 0 100 (\<lambda>t. 1) (\<lambda>t. 1) [365, 365 + 1 / 10000] [90, 100, 110] close_grid
     CLARK CONJUGATE_GRADIENT = buildVolSurface demo_env (market_surface [365, 365 + 1 / 10000] close_grid) CONJUGATE_GRADIENT"
    by (simp add: EquityVolSurface_init_def market_surface_def close_grid_def Let_def)
  then show ?thesis by (simp only: buildVolSurface_close)
qed

lemma grid_search_demo_0:
  "grid_search (obj demo_env (100, 1, 0, 0, [90, 100, 110], 0, demo_grid, 0))
     demo_candidates [0, 0, 0] = [1 / 5, 0, 0]"
  by (simp add: demo_candidates_def demo_grid_def obj_demo demo_smile_def)

subsection \<open>Fallback of the per-expiry calibrator\<close>

text \<open>
  The part of the fallback that the code has. When the optimizer selected by
  \<^verbatim>\<open>finSolverType\<close> raises and it was not conjugate gradient, the calibration is
  retried exactly once with conjugate gradient: the observable events are the first
  call, the message and one call of \<^verbatim>\<open>minimize\<close> with method CG, in this order. The
  outcome is the outcome of that retry: when the retry raises, the calibration of the
  expiry fails with the exception of the retry and returns no parameter vector.
\<close>

lemma solveToHorizon_retry_on_raise:
  assumes "primary_run env (obj env (s, t, r, q, ks, timeIndex, grid, vtv)) xinits
             (1 / 10 ^ 6) solver = Inl e"
      and "solver \<noteq> CONJUGATE_GRADIENT"
  shows "snd (solveToHorizon env s t r q ks timeIndex grid vtv xinits solver) =
           [primary_call solver, Printed ''Failed to converge, will try CG'',
            Called_minimize ''CG''] \<and>
         fst (solveToHorizon env s t r q ks timeIndex grid vtv xinits solver) =
           (case minimize env (obj env (s, t, r, q, ks, timeIndex, grid, vtv)) xinits
                   ''CG'' (1 / 10 ^ 6) of
              Inl e' \<Rightarrow> Inl e' | Inr opt \<Rightarrow> Inr (opt_x opt))"
  using assms by (simp add: solveToHorizon_def Let_def split: sum.splits)

lemma solveToHorizon_retry_on_raise_example:
  "primary_run demo_env (obj demo_env (100, 1, 0, 0, [90, 100, 110], 0, demo_grid, 0))
     [0, 0, 0] (1 / 10 ^ 6) NELDER_MEAD_NUMBA = Inl (SolverException ''simplex'') \<and>
   NELDER_MEAD_NUMBA \<noteq> CONJUGATE_GRADIENT \<and>
   solveToHorizon demo_env 100 1 0 0 [90, 100, 110] 0 demo_grid 0 [0, 0, 0]
     NELDER_MEAD_NUMBA =
     (Inr [1 / 5, 0, 0],
      [Called_nelder_mead, Printed ''Failed to converge, will try CG'',
       Called_minimize ''CG''])"
  using solveToHorizon_retry_on_raise
          [of demo_env 100 1 0 0 "[90, 100, 110]" 0 demo_grid 0 "[0, 0, 0]"
              NELDER_MEAD_NUMBA "SolverException ''simplex''"]
  by (simp add: solveToHorizon_def primary_run_def primary_call_def demo_env_sel
        grid_search_demo_0)

text \<open>
  Claim C1 at an optimizer that returns without having converged. The comments of
  \<^verbatim>\<open>_solveToHorizon\<close> say that a failure to converge is retried with conjugate
  gradient, but the retry is in the handler of an exception, and a result is never
  asked whether it converged. Here \<^verbatim>\<open>minimize\<close> with method Nelder-Mead returns its
  start, the zero vector, with the success flag false. The calibration makes that one
  call, does not retry and does not fail: it returns the zero vector, whose objective
  is \<open>3/25\<close>, where conjugate gradient returns the exact fit.
\<close>

theorem solveToHorizon_unconverged_no_retry:
  "minimize demo_env (obj demo_env (100, 1, 0, 0, [90, 100, 110], 0, demo_grid, 0))
      [0, 0, 0] ''Nelder-Mead'' (1 / 10 ^ 6) = Inr (OptimizeResult [0, 0, 0] False) \<and>
   solveToHorizon demo_env 100 1 0 0 [90, 100, 110] 0 demo_grid 0 [0, 0, 0] NELDER_MEAD =
     (Inr [0, 0, 0], [Called_minimize ''Nelder-Mead'']) \<and>
   obj demo_env (100, 1, 0, 0, [90, 100, 110], 0, demo_grid, 0) [0, 0, 0] = Inr (3 / 25) \<and>
   solveToHorizon demo_env 100 1 0 0 [90, 100, 110] 0 demo_grid 0 [0, 0, 0]
     CONJUGATE_GRADIENT = (Inr [1 / 5, 0, 0], [Called_minimize ''CG''])"
proof -
  have "obj demo_env (100, 1, 0, 0, [90, 100, 110], 0, demo_grid, 0) [0, 0, 0] = Inr (3 / 25)"
    by (simp add: obj_demo demo_grid_def demo_smile_def)
  then show ?thesis
    by (simp add: solveToHorizon_def primary_run_def primary_call_def demo_env_sel
          grid_search_demo_0)
qed

subsection \<open>The smile family is total on the enumeration\<close>

lemma volFunction_member:
  "\<exists>v. volFunction env (fvt_value env ty) params f k t = Inr v"
  by (cases ty) (simp_all add: volFunction_def)

lemma deltaFit_total:
  "\<exists>v. deltaFit env (fvt_value env ty, s, t, r, q, otv, idt, params) k = Inr v"
proof -
  obtain v where
    "volFunction env (fvt_value env ty) params (s * exp ((r - q) * t)) k t = Inr v"
    using volFunction_member by blast
  then show ?thesis by (simp add: deltaFit_def Let_def)
qed

subsection \<open>The strike search\<close>

text \<open>
  With an objective that does not raise, the iteration ends in one of two ways. Either
  the budget is used up, no strike that the iterations computed has an objective within
  the tolerance, and the outcome is the failure. Or the outcome is the last strike
  computed, its objective is within the tolerance, and no strike before it has an
  objective within the tolerance.
\<close>

lemma secant_iterate_outcome:
  assumes "\<forall>k. \<exists>v. func k = Inr v"
  shows "\<exists>res ps. secant_iterate env func tol m p0 q0 p1 q1 = (res, ps) \<and> length ps \<le> m \<and>
           ((res = Inl StrikeSolveFailed \<and> length ps = m \<and>
             (\<forall>p\<in>set ps. \<exists>v. func p = Inr v \<and> \<not> \<bar>v\<bar> < tol)) \<or>
            (ps \<noteq> [] \<and> res = Inr (last ps) \<and>
             (\<exists>v. func (last ps) = Inr v \<and> \<bar>v\<bar> < tol) \<and>
             (\<forall>p\<in>set (butlast ps). \<exists>v. func p = Inr v \<and> \<not> \<bar>v\<bar> < tol)))"
proof (induction m arbitrary: p0 q0 p1 q1)
  case 0
  show ?case by simp
next
  case (Suc m)
  let ?p = "secant_update env p0 q0 p1 q1"
  from assms obtain qp where qp: "func ?p = Inr qp" by blast
  show ?case
  proof (cases "\<bar>qp\<bar> < tol")
    case True
    then have "secant_iterate env func tol (Suc m) p0 q0 p1 q1 = (Inr ?p, [?p])"
      using qp by (simp add: Let_def)
    with True qp show ?thesis by simp
  next
    case False
    from Suc.IH [of p1 q1 ?p qp] obtain res ps where
      run: "secant_iterate env func tol m p1 q1 ?p qp = (res, ps)"
      and len: "length ps \<le> m"
      and out: "(res = Inl StrikeSolveFailed \<and> length ps = m \<and>
                  (\<forall>p\<in>set ps. \<exists>v. func p = Inr v \<and> \<not> \<bar>v\<bar> < tol)) \<or>
                (ps \<noteq> [] \<and> res = Inr (last ps) \<and>
                  (\<exists>v. func (last ps) = Inr v \<and> \<bar>v\<bar> < tol) \<and>
                  (\<forall>p\<in>set (butlast ps). \<exists>v. func p = Inr v \<and> \<not> \<bar>v\<bar> < tol))"
      by blast
    have step: "secant_iterate env func tol (Suc m) p0 q0 p1 q1 = (res, ?p # ps)"
      using False qp run by (simp add: Let_def)
    have here: "\<exists>v. func ?p = Inr v \<and> \<not> \<bar>v\<bar> < tol"
      using False qp by simp
    from out show ?thesis
    proof
      assume "res = Inl StrikeSolveFailed \<and> length ps = m \<and>
                (\<forall>p\<in>set ps. \<exists>v. func p = Inr v \<and> \<not> \<bar>v\<bar> < tol)"
      with step here show ?thesis by simp
    next
      assume conv: "ps \<noteq> [] \<and> res = Inr (last ps) \<and>
                  (\<exists>v. func (last ps) = Inr v \<and> \<bar>v\<bar> < tol) \<and>
                  (\<forall>p\<in>set (butlast ps). \<exists>v. func p = Inr v \<and> \<not> \<bar>v\<bar> < tol)"
      then have "\<forall>p\<in>set (butlast (?p # ps)). \<exists>v. func p = Inr v \<and> \<not> \<bar>v\<bar> < tol"
        using here by simp
      with conv step len show ?thesis by simp
    qed
  qed
qed

text \<open>The objective of the search is within the tolerance where the deltas agree.\<close>

lemma deltaFit_within_tolerance:
  "(\<exists>v. deltaFit env (vtv, s, t, r, q, otv, norminvcdf env \<bar>deltaTarget\<bar>, params) K = Inr v \<and>
        \<bar>v\<bar> < 1 / 10 ^ 8) \<longleftrightarrow>
   delta_within_tolerance env vtv s t r q otv deltaTarget params K"
  by (simp add: deltaFit_def delta_within_tolerance_def Let_def split: sum.splits)

text \<open>One iteration of the search, for a budget written as a numeral.\<close>

lemma secant_iterate_step:
  assumes "0 < n"
  shows
  "secant_iterate env func tol n p0 q0 p1 q1 =
     (let p = secant_update env p0 q0 p1 q1
      in case func p of
           Inl e \<Rightarrow> (Inl e, [p])
         | Inr qp \<Rightarrow>
             if \<bar>qp\<bar> < tol then (Inr p, [p])
             else (case secant_iterate env func tol (n - 1) p1 q1 p qp of
                     (res, ps) \<Rightarrow> (res, p # ps)))"
proof (cases n)
  case 0
  with assms show ?thesis by simp
next
  case (Suc k)
  show ?thesis
    unfolding Suc by (simp only: secant_iterate.simps diff_Suc_1)
qed

text \<open>An objective that is flat and not within the tolerance uses up any budget.\<close>

lemma secant_iterate_flat:
  assumes "\<forall>k. func k = Inr c" and "\<not> \<bar>c\<bar> < tol"
      and "\<forall>p0 p1. secant_update env p0 c p1 c = p1"
  shows "secant_iterate env func tol m p0 c p1 c = (Inl StrikeSolveFailed, replicate m p1)"
  using assms by (induction m arbitrary: p0) (simp_all add: Let_def)

text \<open>
  Claim C2. For every spot, time, rates, option right, target delta, initial guess,
  fitted parameters and smile family of the enumeration, \<^verbatim>\<open>_solveForSmileStrike\<close>
  returns the outcome of the root search run with the tolerance \<open>1e-8\<close> and a budget of
  50 iterations, and the search computes at most 50 strikes. Either it fails with
  \<open>StrikeSolveFailed\<close>, after 50 strikes at none of which the delta is within the
  tolerance of the target; or it returns the last strike it computed, the delta at
  that strike is within the tolerance of the target, and it is the first such strike.
  A strike at which the delta is not within the tolerance is never returned.
\<close>

theorem solveForSmileStrike_converged_or_failed:
  assumes "vtv = fvt_value env ty"
  shows "\<exists>ps. newton_secant env
                 (deltaFit env (vtv, s, t, r, q, otv, norminvcdf env \<bar>deltaTarget\<bar>, params))
                 initialGuess (1 / 10 ^ 8) 50 =
               (solveForSmileStrike env s t r q otv vtv deltaTarget initialGuess params, ps) \<and>
              length ps \<le> 50 \<and>
              ((solveForSmileStrike env s t r q otv vtv deltaTarget initialGuess params =
                  Inl StrikeSolveFailed \<and>
                length ps = 50 \<and>
                (\<forall>K\<in>set ps. \<not> delta_within_tolerance env vtv s t r q otv deltaTarget params K)) \<or>
               (ps \<noteq> [] \<and>
                solveForSmileStrike env s t r q otv vtv deltaTarget initialGuess params =
                  Inr (last ps) \<and>
                delta_within_tolerance env vtv s t r q otv deltaTarget params (last ps) \<and>
                (\<forall>K\<in>set (butlast ps).
                   \<not> delta_within_tolerance env vtv s t r q otv deltaTarget params K)))"
proof -
  let ?func = "deltaFit env (vtv, s, t, r, q, otv, norminvcdf env \<bar>deltaTarget\<bar>, params)"
  have tot: "\<forall>k. \<exists>v. ?func k = Inr v"
    using deltaFit_total assms by simp
  then obtain q0 where q0: "?func initialGuess = Inr q0" by blast
  from tot obtain q1 where q1: "?func (secant_start env initialGuess) = Inr q1" by blast
  have within: "(\<exists>v. ?func K = Inr v \<and> \<not> \<bar>v\<bar> < 1 / 10 ^ 8) \<longleftrightarrow>
                  \<not> delta_within_tolerance env vtv s t r q otv deltaTarget params K" for K
    using tot deltaFit_within_tolerance [of env vtv s t r q otv deltaTarget params K]
    by (metis sum.inject(2))
  from secant_iterate_outcome [OF tot, of env "1 / 10 ^ 8" 50 initialGuess q0
         "secant_start env initialGuess" q1]
  obtain res ps where
    run: "secant_iterate env ?func (1 / 10 ^ 8) 50 initialGuess q0
            (secant_start env initialGuess) q1 = (res, ps)"
    and len: "length ps \<le> 50"
    and out: "(res = Inl StrikeSolveFailed \<and> length ps = 50 \<and>
                (\<forall>p\<in>set ps. \<exists>v. ?func p = Inr v \<and> \<not> \<bar>v\<bar> < 1 / 10 ^ 8)) \<or>
              (ps \<noteq> [] \<and> res = Inr (last ps) \<and>
                (\<exists>v. ?func (last ps) = Inr v \<and> \<bar>v\<bar> < 1 / 10 ^ 8) \<and>
                (\<forall>p\<in>set (butlast ps). \<exists>v. ?func p = Inr v \<and> \<not> \<bar>v\<bar> < 1 / 10 ^ 8))"
    by blast
  have ns: "newton_secant env ?func initialGuess (1 / 10 ^ 8) 50 = (res, ps)"
    using q0 q1 run by (simp add: newton_secant_def Let_def)
  then have solve:
    "solveForSmileStrike env s t r q otv vtv deltaTarget initialGuess params = res"
    by (simp add: solveForSmileStrike_def Let_def)
  from out have
    "(res = Inl StrikeSolveFailed \<and> length ps = 50 \<and>
        (\<forall>K\<in>set ps. \<not> delta_within_tolerance env vtv s t r q otv deltaTarget params K)) \<or>
     (ps \<noteq> [] \<and> res = Inr (last ps) \<and>
        delta_within_tolerance env vtv s t r q otv deltaTarget params (last ps) \<and>
        (\<forall>K\<in>set (butlast ps).
           \<not> delta_within_tolerance env vtv s t r q otv deltaTarget params K))"
    unfolding within deltaFit_within_tolerance .
  with ns len show ?thesis
    unfolding solve by blast
qed

text \<open>The search on the concrete collaborators: a root, and a smile of volatility zero.\<close>

lemma deltaFit_demo:
  "deltaFit demo_env (0, s, t, r, q, otv, idt, params) k =
     Inr (idt - \<bar>demo_delta s t k r q (demo_smile params (s * exp ((r - q) * t)) k t) otv\<bar>)"
  by (simp add: deltaFit_def volFunction_demo demo_env_sel Let_def)

lemma solveForSmileStrike_demo_root:
  "solveForSmileStrike demo_env 100 t 0 0 1 0 (1 / 4) 100 [1 / 5, 0, 0] = Inr 150"
  by (simp add: solveForSmileStrike_def newton_secant_def deltaFit_demo demo_env_sel
        secant_iterate_step demo_delta_def demo_smile_def demo_update_def Let_def)

lemma solveForSmileStrike_demo_flat:
  "solveForSmileStrike demo_env 100 t 0 0 1 0 (1 / 4) 100 [0, 0, 0] = Inl StrikeSolveFailed"
proof -
  let ?func = "deltaFit demo_env (0, 100, t, 0, 0, 1, 1 / 4, [0, 0, 0])"
  have flat: "\<forall>k. ?func k = Inr (- (3 / 4))"
    by (simp add: deltaFit_demo demo_delta_def demo_smile_def)
  have "secant_iterate demo_env ?func (1 / 10 ^ 8) 50 100 (- (3 / 4)) 101 (- (3 / 4)) =
          (Inl StrikeSolveFailed, replicate 50 101)"
    by (rule secant_iterate_flat [OF flat]) (simp_all add: demo_env_sel demo_update_def)
  then show ?thesis
    using flat by (simp add: solveForSmileStrike_def newton_secant_def demo_env_sel Let_def)
qed

theorem solveForSmileStrike_converged_or_failed_witness:
  "0 = fvt_value demo_env CLARK \<and>
   solveForSmileStrike demo_env 100 1 0 0 1 0 (1 / 4) 100 [1 / 5, 0, 0] = Inr 150 \<and>
   delta_within_tolerance demo_env 0 100 1 0 0 1 (1 / 4) [1 / 5, 0, 0] 150 \<and>
   bs_delta demo_env 100 1 150 0 0 (1 / 5) 1 = 1 / 4 \<and>
   \<not> delta_within_tolerance demo_env 0 100 1 0 0 1 (1 / 4) [1 / 5, 0, 0] 100 \<and>
   solveForSmileStrike demo_env 100 1 0 0 1 0 (1 / 4) 100 [0, 0, 0] = Inl StrikeSolveFailed \<and>
   \<not> delta_within_tolerance demo_env 0 100 1 0 0 1 (1 / 4) [0, 0, 0] 101"
  using solveForSmileStrike_converged_or_failed
          [of 0 demo_env CLARK 100 1 0 0 1 "1 / 4" "[1 / 5, 0, 0]" 100]
        solveForSmileStrike_converged_or_failed
          [of 0 demo_env CLARK 100 1 0 0 1 "1 / 4" "[0, 0, 0]" 100]
  by (simp add: solveForSmileStrike_demo_root solveForSmileStrike_demo_flat
        delta_within_tolerance_def volFunction_demo demo_env_sel demo_fvt_value_def
        demo_delta_def demo_smile_def)

subsection \<open>Bracket selection\<close>

lemma bracket_StrikeDate_below:
  "tau \<le> texp self ! 0 \<Longrightarrow> bracket_StrikeDate self tau = (0, 0)"
  by (simp add: bracket_StrikeDate_def Let_def)

lemma bracket_StrikeDate_above:
  assumes "sorted (texp self)" and "texp self \<noteq> []"
      and "numExpiryDates self = length (texp self)" and "last (texp self) < tau"
  shows "bracket_StrikeDate self tau = (length (texp self) - 1, length (texp self) - 1)"
proof -
  have "texp self ! 0 \<le> texp self ! (length (texp self) - 1)"
    using assms(1,2) by (intro sorted_nth_mono) simp_all
  then have "texp self ! 0 \<le> last (texp self)"
    using assms(2) by (simp add: last_conv_nth)
  with assms(4) have "\<not> tau \<le> texp self ! 0" by simp
  with assms(3,4) show ?thesis
    by (auto simp: bracket_StrikeDate_def Let_def)
qed

text \<open>The scan returns the first pair of neighbours that encloses the query time.\<close>

lemma bracket_scan_first:
  assumes "a \<le> i" and "i < n"
      and "\<And>j. a \<le> j \<Longrightarrow> j < i \<Longrightarrow> \<not> (tau \<le> ts ! j \<and> tau > ts ! (j - 1))"
      and "tau \<le> ts ! i" and "tau > ts ! (i - 1)"
  shows "bracket_scan ts tau [a..<n] = (i - 1, i)"
  using assms
proof (induction "i - a" arbitrary: a)
  case 0
  then have "a = i" by simp
  with 0 show ?case by (simp add: upt_rec [of i n])
next
  case (Suc d)
  then have less: "a < i" by simp
  then have "a < n" using Suc.prems by simp
  have skip: "\<not> (tau \<le> ts ! a \<and> tau > ts ! (a - 1))"
    using Suc.prems(3) [of a] less by simp
  have rest: "bracket_scan ts tau [Suc a..<n] = (i - 1, i)"
  proof (rule Suc.hyps(1))
    show "d = i - Suc a" using Suc.hyps(2) by simp
    show "Suc a \<le> i" using less by simp
    show "i < n" by fact
    show "\<not> (tau \<le> ts ! j \<and> ts ! (j - 1) < tau)" if "Suc a \<le> j" "j < i" for j
      using Suc.prems(3) [of j] that by simp
    show "tau \<le> ts ! i" by fact
    show "ts ! (i - 1) < tau" by fact
  qed
  show ?case
    using skip rest \<open>a < n\<close> by (auto simp: upt_rec [of a n])
qed

text \<open>
  Claim C3 at a query time equal to the latest expiry. The surface is constructed from
  three expiries at one, two and three years. At the query time 3 the delta query compares with
  \<open>>\<close> where the strike query compares with \<open>\<ge>\<close>: it falls through to the scan and
  selects the bracket (1, 2), while the strike query selects (2, 2).
\<close>

theorem bracket_DeltaDate_at_latest:
  "EquityVolSurface_init demo_env 0 100 (\<lambda>t. 1) (\<lambda>t. 1) [365, 730, 1095]
     [90, 100, 110] demo_grid CLARK CONJUGATE_GRADIENT = Inr demo_surface \<and>
   numExpiryDates demo_surface = 3 \<and> last (texp demo_surface) = 3 \<and>
   bracket_DeltaDate demo_surface 3 = (1, 2) \<and>
   bracket_StrikeDate demo_surface 3 = (2, 2)"
  by (simp add: init_demo bracket_DeltaDate_def bracket_StrikeDate_def demo_surface_sel
        upt_rec)

subsection \<open>The strike query\<close>

text \<open>The result of the strike query, from the bracket and the two smile values.\<close>

lemma strike_query_collapsed:
  assumes "bracket_StrikeDate self ((d - valuation_date self) / gDaysInYear env) = (i, i)"
  shows "fst (volatilityFromStrikeDate env self K d) =
           volFunction env (fvt_value env (volatility_function_type self))
             (parameters self ! i) (F0T self ! i) K (texp self ! i)"
  using assms
  by (simp add: volatilityFromStrikeDate_def Let_def split: sum.splits)

lemma strike_query_result:
  assumes "bracket_StrikeDate self ((d - valuation_date self) / gDaysInYear env) = (i0, i1)"
      and "volFunction env (fvt_value env (volatility_function_type self))
             (parameters self ! i0) (F0T self ! i0) K (texp self ! i0) = Inr vol0"
      and "volFunction env (fvt_value env (volatility_function_type self))
             (parameters self ! i1) (F0T self ! i1) K (texp self ! i1) = Inr vol1"
  shows "fst (volatilityFromStrikeDate env self K d) =
          (if 1 / 10 ^ 6 < \<bar>texp self ! i1 - texp self ! i0\<bar> then
             (if (((d - valuation_date self) / gDaysInYear env - texp self ! i0)
                     * (vol1 * vol1 * texp self ! i1)
                    + (texp self ! i1 - (d - valuation_date self) / gDaysInYear env)
                     * (vol0 * vol0 * texp self ! i0))
                   / (texp self ! i1 - texp self ! i0) < 0
              then Inl (FinError ''Negative variance.'')
              else Inr (sqrt ((((d - valuation_date self) / gDaysInYear env - texp self ! i0)
                                  * (vol1 * vol1 * texp self ! i1)
                                 + (texp self ! i1 - (d - valuation_date self) / gDaysInYear env)
                                   * (vol0 * vol0 * texp self ! i0))
                               / (texp self ! i1 - texp self ! i0)
                               / ((d - valuation_date self) / gDaysInYear env))))
           else Inr vol1)"
proof (cases "i1 = i0")
  case True
  with assms(2,3) have "vol1 = vol0" by simp
  with True assms show ?thesis
    by (simp add: volatilityFromStrikeDate_def Let_def)
next
  case False
  with assms show ?thesis
    by (simp add: volatilityFromStrikeDate_def Let_def)
qed

lemma surface_ok_length_texp:
  "surface_ok env self \<Longrightarrow> length (texp self) = numExpiryDates self"
  by (simp add: surface_ok_def)

lemma surface_ok_texp_nth:
  "surface_ok env self \<Longrightarrow> i < numExpiryDates self \<Longrightarrow>
     (expiry_dates self ! i - valuation_date self) / gDaysInYear env = texp self ! i"
  by (simp add: surface_ok_def)

lemma sqrt_100: "sqrt (1 / 100) = 1 / 10"
  by (rule real_sqrt_unique) (simp_all add: power2_eq_square)

lemma sqrt_neq: "0 \<le> x \<Longrightarrow> x \<noteq> y\<^sup>2 \<Longrightarrow> sqrt x \<noteq> y"
proof
  assume "0 \<le> x" and ne: "x \<noteq> y\<^sup>2" and "sqrt x = y"
  then have "y\<^sup>2 = x" by (metis real_sqrt_pow2)
  with ne show False by simp
qed

lemma bracket_StrikeDate_interior:
  assumes asc: "sorted_wrt (<) (texp self)"
      and len: "length (texp self) = numExpiryDates self"
      and i: "0 < i" "i < numExpiryDates self - 1"
  shows "bracket_StrikeDate self (texp self ! i) = (i - 1, i)"
proof -
  let ?ts = "texp self"
  let ?n = "numExpiryDates self"
  have lt: "?ts ! a < ?ts ! b" if "a < b" "b < ?n" for a b
    using sorted_wrt_nth_less [OF asc that(1)] that(2) len by simp
  have n1: "?n \<noteq> 1" using i by simp
  have in': "i < ?n" using i by simp
  have first: "\<not> ?ts ! i \<le> ?ts ! 0" using lt [OF i(1) in'] by simp
  have ne: "?ts \<noteq> []" using len i by auto
  have "last ?ts = ?ts ! (?n - 1)"
    using len ne by (simp add: last_conv_nth)
  moreover have "?ts ! i < ?ts ! (?n - 1)" using i by (intro lt) simp_all
  ultimately have lst: "\<not> last ?ts \<le> ?ts ! i" by simp
  have scan: "bracket_scan ?ts (?ts ! i) [1..<?n] = (i - 1, i)"
  proof (rule bracket_scan_first)
    show "1 \<le> i" using i by simp
    show "i < ?n" using i by simp
    show "\<not> (?ts ! i \<le> ?ts ! j \<and> ?ts ! (j - 1) < ?ts ! i)" if "1 \<le> j" "j < i" for j
      using lt [OF that(2) in'] by simp
    show "?ts ! i \<le> ?ts ! i" by simp
    show "?ts ! (i - 1) < ?ts ! i" using lt [of "i - 1" i] i in' by simp
  qed
  show ?thesis
    using n1 first lst scan by (simp add: bracket_StrikeDate_def Let_def)
qed

lemma bracket_StrikeDate_last:
  assumes asc: "sorted_wrt (<) (texp self)"
      and len: "length (texp self) = numExpiryDates self"
      and i: "0 < i" "i = numExpiryDates self - 1"
  shows "bracket_StrikeDate self (texp self ! i) = (i, i)"
proof -
  let ?ts = "texp self"
  have "?ts ! 0 < ?ts ! i"
    using sorted_wrt_nth_less [OF asc, of 0 i] i len by simp
  moreover have "?ts \<noteq> []" using len i by auto
  then have "last ?ts = ?ts ! i"
    using len i by (simp add: last_conv_nth)
  ultimately show ?thesis
    using i len by (simp add: bracket_StrikeDate_def Let_def)
qed

lemma interpolation_at_upper:
  fixes t0 t1 v0 v1 :: real
  assumes "t0 < t1" and "0 < t1"
  shows "\<not> ((t1 - t0) * (v1 * v1 * t1) + (t1 - t1) * (v0 * v0 * t0)) / (t1 - t0) < 0"
    and "sqrt (((t1 - t0) * (v1 * v1 * t1) + (t1 - t1) * (v0 * v0 * t0)) / (t1 - t0) / t1) = \<bar>v1\<bar>"
proof -
  have eq: "((t1 - t0) * (v1 * v1 * t1) + (t1 - t1) * (v0 * v0 * t0)) / (t1 - t0) = v1 * v1 * t1"
    using assms by simp
  show "\<not> ((t1 - t0) * (v1 * v1 * t1) + (t1 - t1) * (v0 * v0 * t0)) / (t1 - t0) < 0"
    unfolding eq using assms(2) by (simp add: not_less)
  have "v1 * v1 * t1 / t1 = v1 * v1" using assms(2) by simp
  then show "sqrt (((t1 - t0) * (v1 * v1 * t1) + (t1 - t1) * (v0 * v0 * t0)) / (t1 - t0) / t1) = \<bar>v1\<bar>"
    unfolding eq by simp
qed

text \<open>
  Claim C4, as the code has it. The strike query evaluates the smile at both bracket
  endpoints. When the two bracket times differ by more than \<open>1e-6\<close> it interpolates
  the total variance linearly in time, fails with the negative-variance error exactly
  when the interpolated value is negative, and otherwise returns the square root of
  the interpolated value over the query time. When the two bracket times differ by at
  most \<open>1e-6\<close>, in particular when the endpoints coincide, it returns the volatility of
  the upper endpoint with no interpolation and no check.
\<close>

theorem volatilityFromStrikeDate_interpolation:
  fixes env self K expiry_date
  shows
  "let tau = (expiry_date - valuation_date self) / gDaysInYear env;
       vtv = fvt_value env (volatility_function_type self);
       index0 = fst (bracket_StrikeDate self tau);
       index1 = snd (bracket_StrikeDate self tau);
       t0 = texp self ! index0;
       t1 = texp self ! index1
   in \<exists>vol0 vol1.
        volFunction env vtv (parameters self ! index0) (F0T self ! index0) K t0 = Inr vol0 \<and>
        volFunction env vtv (parameters self ! index1) (F0T self ! index1) K t1 = Inr vol1 \<and>
        fst (volatilityFromStrikeDate env self K expiry_date) =
          (if 1 / 10 ^ 6 < \<bar>t1 - t0\<bar> then
             (if ((tau - t0) * (vol1 * vol1 * t1) + (t1 - tau) * (vol0 * vol0 * t0))
                   / (t1 - t0) < 0
              then Inl (FinError ''Negative variance.'')
              else Inr (sqrt (((tau - t0) * (vol1 * vol1 * t1)
                                 + (t1 - tau) * (vol0 * vol0 * t0)) / (t1 - t0) / tau)))
           else Inr vol1)"
proof -
  define tau where "tau = (expiry_date - valuation_date self) / gDaysInYear env"
  define vtv where "vtv = fvt_value env (volatility_function_type self)"
  define index0 where "index0 = fst (bracket_StrikeDate self tau)"
  define index1 where "index1 = snd (bracket_StrikeDate self tau)"
  obtain vol0 where
    v0: "volFunction env vtv (parameters self ! index0) (F0T self ! index0) K
           (texp self ! index0) = Inr vol0"
    unfolding vtv_def using volFunction_member by blast
  obtain vol1 where
    v1: "volFunction env vtv (parameters self ! index1) (F0T self ! index1) K
           (texp self ! index1) = Inr vol1"
    unfolding vtv_def using volFunction_member by blast
  have same: "index1 = index0 \<Longrightarrow> vol1 = vol0"
    using v0 v1 by simp
  have "fst (volatilityFromStrikeDate env self K expiry_date) =
          (if 1 / 10 ^ 6 < \<bar>texp self ! index1 - texp self ! index0\<bar> then
             (if ((tau - texp self ! index0) * (vol1 * vol1 * texp self ! index1)
                    + (texp self ! index1 - tau) * (vol0 * vol0 * texp self ! index0))
                   / (texp self ! index1 - texp self ! index0) < 0
              then Inl (FinError ''Negative variance.'')
              else Inr (sqrt (((tau - texp self ! index0) * (vol1 * vol1 * texp self ! index1)
                                 + (texp self ! index1 - tau)
                                   * (vol0 * vol0 * texp self ! index0))
                               / (texp self ! index1 - texp self ! index0) / tau)))
           else Inr vol1)"
    using v0 v1 same
    unfolding volatilityFromStrikeDate_def Let_def tau_def [symmetric] vtv_def [symmetric]
      index0_def [symmetric] index1_def [symmetric]
    by (cases "index1 = index0") simp_all
  with v0 v1 show ?thesis
    unfolding Let_def tau_def [symmetric] vtv_def [symmetric]
      index0_def [symmetric] index1_def [symmetric]
    by blast
qed

text \<open>
  Claim C4 as stated fails when the two bracket times are distinct and at most \<open>1e-6\<close>
  apart. The surface is constructed from two expiries on the same day, 8.64 seconds
  apart, and fitted with the smile levels \<open>1/5\<close> and \<open>3/10\<close>. A query halfway between them selects the bracket (0, 1),
  whose endpoints differ, and returns \<open>3/10\<close>, the volatility of the upper endpoint,
  which is not the square root of the interpolated variance over the query time.
\<close>

theorem volatilityFromStrikeDate_close_tenors_counterexample:
  "EquityVolSurface_init demo_env 0 100 (\<lambda>t. 1) (\<lambda>t. 1) [365, 365 + 1 / 10000]
     [90, 100, 110] close_grid CLARK CONJUGATE_GRADIENT = Inr close_surface \<and>
   surface_ok demo_env close_surface \<and>
   bracket_StrikeDate close_surface
     ((365 + 1 / 20000 - valuation_date close_surface) / gDaysInYear demo_env) = (0, 1) \<and>
   volFunction demo_env (fvt_value demo_env (volatility_function_type close_surface))
     (parameters close_surface ! 0) (F0T close_surface ! 0) 100 (texp close_surface ! 0)
     = Inr (1 / 5) \<and>
   volFunction demo_env (fvt_value demo_env (volatility_function_type close_surface))
     (parameters close_surface ! 1) (F0T close_surface ! 1) 100 (texp close_surface ! 1)
     = Inr (3 / 10) \<and>
   fst (volatilityFromStrikeDate demo_env close_surface 100 (365 + 1 / 20000)) = Inr (3 / 10) \<and>
   sqrt ((((365 + 1 / 20000) / 365 - 1) * (3 / 10 * (3 / 10) * (1 + 1 / 3650000))
          + (1 + 1 / 3650000 - (365 + 1 / 20000) / 365) * (1 / 5 * (1 / 5) * 1))
         / (1 + 1 / 3650000 - 1) / ((365 + 1 / 20000) / 365)) \<noteq> 3 / 10"
proof -
  let ?X = "(((365 + 1 / 20000) / 365 - 1) * (3 / 10 * (3 / 10) * (1 + 1 / 3650000))
          + (1 + 1 / 3650000 - (365 + 1 / 20000) / 365) * (1 / 5 * (1 / 5) * 1))
         / (1 + 1 / 3650000 - 1) / ((365 + 1 / 20000) / 365) :: real"
  have "sqrt ?X \<noteq> 3 / 10"
    by (rule sqrt_neq) (simp_all add: power2_eq_square)
  moreover have "bracket_StrikeDate close_surface
     ((365 + 1 / 20000 - valuation_date close_surface) / gDaysInYear demo_env) = (0, 1)"
    by (simp add: bracket_StrikeDate_def close_surface_def close_grid_def market_surface_def demo_env_def Let_def upt_rec)
  moreover have "fst (volatilityFromStrikeDate demo_env close_surface 100 (365 + 1 / 20000)) = Inr (3 / 10)"
    by (simp add: close_surface_def close_grid_def market_surface_def demo_env_def
        volFunction_def demo_fvt_value_def demo_smile_def volatilityFromStrikeDate_def
        bracket_StrikeDate_def Let_def upt_rec)
  moreover have "surface_ok demo_env close_surface"
    by (simp add: surface_ok_def close_surface_def close_grid_def market_surface_def demo_env_def)
  moreover note init_close
  ultimately show ?thesis
    by (simp add: close_surface_def close_grid_def market_surface_def demo_env_def volFunction_def demo_fvt_value_def demo_smile_def)
qed

text \<open>
  Claim C5, as the code has it. The surface is a constructed one with strictly
  ascending, positive times to expiry. A strike query at the date of expiry \<open>i\<close>
  returns the smile value of that expiry, at its own parameters, forward and time, when
  \<open>i\<close> is the first or the last expiry, or lies within \<open>1e-6\<close> of the expiry before it.
  For any other expiry the bracket is \<open>(i - 1, i)\<close>, the value goes through the
  interpolation of the variance, and the query returns the absolute value of the smile
  value. So the query returns the smile value whenever that value is not negative.
\<close>

theorem volatilityFromStrikeDate_at_tenor:
  assumes ok: "surface_ok env self" and asc: "sorted_wrt (<) (texp self)"
      and i: "i < numExpiryDates self" and pos: "0 < texp self ! i"
  shows "\<exists>v. volFunction env (fvt_value env (volatility_function_type self))
               (parameters self ! i) (F0T self ! i) K (texp self ! i) = Inr v \<and>
             fst (volatilityFromStrikeDate env self K (expiry_dates self ! i)) =
               Inr (if i = 0 \<or> i = numExpiryDates self - 1 \<or>
                       texp self ! i - texp self ! (i - 1) \<le> 1 / 10 ^ 6
                    then v else \<bar>v\<bar>)"
proof -
  let ?ts = "texp self"
  let ?n = "numExpiryDates self"
  let ?vtv = "fvt_value env (volatility_function_type self)"
  let ?d = "expiry_dates self ! i"
  have len: "length ?ts = ?n" using ok by (rule surface_ok_length_texp)
  have tau: "(?d - valuation_date self) / gDaysInYear env = ?ts ! i"
    using ok i by (rule surface_ok_texp_nth)
  obtain v where v: "volFunction env ?vtv (parameters self ! i) (F0T self ! i) K (?ts ! i) = Inr v"
    using volFunction_member by blast
  have "fst (volatilityFromStrikeDate env self K ?d) =
               Inr (if i = 0 \<or> i = ?n - 1 \<or> ?ts ! i - ?ts ! (i - 1) \<le> 1 / 10 ^ 6
                    then v else \<bar>v\<bar>)"
  proof (cases "i = 0 \<or> i = ?n - 1")
    case True
    have "bracket_StrikeDate self (?ts ! i) = (i, i)"
    proof (cases "i = 0")
      case True
      then show ?thesis by (simp add: bracket_StrikeDate_below)
    next
      case False
      with \<open>i = 0 \<or> i = ?n - 1\<close> show ?thesis
        using bracket_StrikeDate_last [OF asc len] by simp
    qed
    then have "fst (volatilityFromStrikeDate env self K ?d) =
        volFunction env ?vtv (parameters self ! i) (F0T self ! i) K (?ts ! i)"
      using strike_query_collapsed [of self ?d env i K] tau by simp
    with v True show ?thesis by auto
  next
    case False
    then have int: "0 < i" "i < ?n - 1" using i by auto
    have br: "bracket_StrikeDate self ((?d - valuation_date self) / gDaysInYear env) = (i - 1, i)"
      using bracket_StrikeDate_interior [OF asc len int] tau by simp
    obtain v0 where v0: "volFunction env ?vtv (parameters self ! (i - 1)) (F0T self ! (i - 1)) K
        (?ts ! (i - 1)) = Inr v0"
      using volFunction_member by blast
    have lt: "?ts ! (i - 1) < ?ts ! i"
      using sorted_wrt_nth_less [OF asc, of "i - 1" i] int len by simp
    note facts = interpolation_at_upper [OF lt pos, of v v0]
    show ?thesis
      using strike_query_result [OF br v0 v] False lt facts
      unfolding tau by (simp add: not_less)
  qed
  with v show ?thesis by blast
qed

theorem volatilityFromStrikeDate_at_tenor_witness:
  "surface_ok demo_env demo_surface \<and> sorted_wrt (<) (texp demo_surface) \<and>
   (1::nat) < numExpiryDates demo_surface \<and> 0 < texp demo_surface ! 1 \<and>
   fst (volatilityFromStrikeDate demo_env demo_surface 95 (expiry_dates demo_surface ! 1)) =
     Inr (3 / 10)"
  using volatilityFromStrikeDate_at_tenor [of demo_env demo_surface 1 95]
  by (auto simp: surface_ok_def demo_surface_def demo_grid_def market_surface_def demo_env_def volFunction_def demo_fvt_value_def demo_smile_def)

text \<open>
  Claim C5 as stated fails at an interior expiry whose smile value is negative: the
  bracket endpoints do not coincide there, and the square root of the interpolated
  variance loses the sign. The surface is constructed from a market smile that falls
  over the strikes at the middle expiry; the fit of that expiry is exact, with the level
  \<open>1/5\<close> and the skew \<open>-1\<close>; at the strike 130 its value is \<open>-1/10\<close>, and the query at that expiry
  returns \<open>1/10\<close>.
\<close>

theorem volatilityFromStrikeDate_at_tenor_counterexample:
  "EquityVolSurface_init demo_env 0 100 (\<lambda>t. 1) (\<lambda>t. 1) [365, 730, 1095]
     [90, 100, 110] skew_grid CLARK CONJUGATE_GRADIENT = Inr skew_surface \<and>
   surface_ok demo_env skew_surface \<and>
   expiry_dates skew_surface ! 1 = 730 \<and>
   volFunction demo_env (fvt_value demo_env (volatility_function_type skew_surface))
     (parameters skew_surface ! 1) (F0T skew_surface ! 1) 130
     (texp skew_surface ! 1) = Inr (- (1 / 10)) \<and>
   fst (volatilityFromStrikeDate demo_env skew_surface 130 730) = Inr (1 / 10)"
  by (intro conjI init_skew)
     (simp_all add: surface_ok_def skew_surface_sel demo_env_sel volFunction_demo
        demo_fvt_value_def demo_smile_def volatilityFromStrikeDate_def
        bracket_StrikeDate_def Let_def upt_rec sqrt_100)

text \<open>
  Claim C6. On a constructed surface with ascending times to expiry, for every strike
  and every query date: when the query time is strictly below the first time to
  expiry, the strike query returns the smile value of the first expiry, at that
  expiry's own parameters, forward and time; when it is strictly above the last time to
  expiry, it returns the smile value of the last expiry. Neither value mentions the
  query time.
\<close>

theorem volatilityFromStrikeDate_flat_extrapolation:
  assumes "surface_ok env self" and "sorted (texp self)"
  shows "((d - valuation_date self) / gDaysInYear env < texp self ! 0 \<longrightarrow>
            fst (volatilityFromStrikeDate env self K d) =
              volFunction env (fvt_value env (volatility_function_type self))
                (parameters self ! 0) (F0T self ! 0) K (texp self ! 0)) \<and>
         (last (texp self) < (d - valuation_date self) / gDaysInYear env \<longrightarrow>
            fst (volatilityFromStrikeDate env self K d) =
              volFunction env (fvt_value env (volatility_function_type self))
                (parameters self ! (numExpiryDates self - 1))
                (F0T self ! (numExpiryDates self - 1)) K
                (texp self ! (numExpiryDates self - 1)))"
proof (intro conjI impI)
  assume "(d - valuation_date self) / gDaysInYear env < texp self ! 0"
  then have "bracket_StrikeDate self ((d - valuation_date self) / gDaysInYear env) = (0, 0)"
    by (simp add: bracket_StrikeDate_below)
  then show "fst (volatilityFromStrikeDate env self K d) =
              volFunction env (fvt_value env (volatility_function_type self))
                (parameters self ! 0) (F0T self ! 0) K (texp self ! 0)"
    by (rule strike_query_collapsed)
next
  assume above: "last (texp self) < (d - valuation_date self) / gDaysInYear env"
  have len: "length (texp self) = numExpiryDates self"
    using assms(1) by (rule surface_ok_length_texp)
  moreover have "1 \<le> numExpiryDates self"
    using assms(1) by (simp add: surface_ok_def)
  ultimately have ne: "texp self \<noteq> []" by auto
  have "bracket_StrikeDate self ((d - valuation_date self) / gDaysInYear env) =
          (numExpiryDates self - 1, numExpiryDates self - 1)"
    using bracket_StrikeDate_above [OF assms(2) ne len [symmetric] above] len by simp
  then show "fst (volatilityFromStrikeDate env self K d) =
              volFunction env (fvt_value env (volatility_function_type self))
                (parameters self ! (numExpiryDates self - 1))
                (F0T self ! (numExpiryDates self - 1)) K
                (texp self ! (numExpiryDates self - 1))"
    by (rule strike_query_collapsed)
qed

theorem volatilityFromStrikeDate_flat_extrapolation_witness:
  "surface_ok demo_env demo_surface \<and> sorted (texp demo_surface) \<and>
   (100 - valuation_date demo_surface) / gDaysInYear demo_env < texp demo_surface ! 0 \<and>
   last (texp demo_surface) < (2000 - valuation_date demo_surface) / gDaysInYear demo_env \<and>
   fst (volatilityFromStrikeDate demo_env demo_surface 95 100) = Inr (1 / 5) \<and>
   fst (volatilityFromStrikeDate demo_env demo_surface 95 2000) = Inr (2 / 5)"
  using volatilityFromStrikeDate_flat_extrapolation [of demo_env demo_surface 100 95]
        volatilityFromStrikeDate_flat_extrapolation [of demo_env demo_surface 2000 95]
  by (simp add: surface_ok_def demo_surface_def demo_grid_def market_surface_def demo_env_def volFunction_def demo_fvt_value_def demo_smile_def)

subsection \<open>The delta query\<close>

text \<open>
  Claim C7. The delta query returns the same volatility and implied strike, and
  leaves the same surface, for any two values of the optional argument
  \<^verbatim>\<open>deltaMethod\<close>, \<^verbatim>\<open>None\<close> included: the argument is accepted and never read.
\<close>

theorem volatilityFromDeltaDate_ignores_deltaMethod:
  "volatilityFromDeltaDate env self callDelta expiry_date deltaMethod =
   volatilityFromDeltaDate env self callDelta expiry_date deltaMethod'"
  by (simp add: volatilityFromDeltaDate_def)

text \<open>
  The root search and the smile do not read the delta function; the objective of the
  root search reads it at the option type it is given, through the absolute value.
\<close>

lemma volFunction_bs_delta:
  "volFunction (env\<lparr>bs_delta := delta'\<rparr>) vtv params f k t = volFunction env vtv params f k t"
  by (simp add: volFunction_def)

lemma secant_iterate_bs_delta:
  "secant_iterate (env\<lparr>bs_delta := delta'\<rparr>) func tol n p0 q0 p1 q1 =
   secant_iterate env func tol n p0 q0 p1 q1"
  by (induction n arbitrary: p0 q0 p1 q1) (auto simp: Let_def split: sum.splits)

lemma newton_secant_bs_delta:
  "newton_secant (env\<lparr>bs_delta := delta'\<rparr>) func x0 tol maxiter =
   newton_secant env func x0 tol maxiter"
  by (simp add: newton_secant_def secant_iterate_bs_delta Let_def split: sum.splits)

lemma deltaFit_bs_delta:
  assumes "\<forall>s t k r q v. \<bar>delta' s t k r q v otv\<bar> = \<bar>bs_delta env s t k r q v otv\<bar>"
  shows "deltaFit (env\<lparr>bs_delta := delta'\<rparr>) (vtv, s, t, r, q, otv, idt, params) =
         deltaFit env (vtv, s, t, r, q, otv, idt, params)"
  using assms
  by (simp add: deltaFit_def volFunction_bs_delta Let_def fun_eq_iff split: sum.splits)

lemma solveForSmileStrike_bs_delta:
  assumes "\<forall>s t k r q v. \<bar>delta' s t k r q v otv\<bar> = \<bar>bs_delta env s t k r q v otv\<bar>"
      and "\<bar>callDelta'\<bar> = \<bar>callDelta\<bar>"
  shows "solveForSmileStrike (env\<lparr>bs_delta := delta'\<rparr>) s t r q otv vtv callDelta' x0 params =
         solveForSmileStrike env s t r q otv vtv callDelta x0 params"
  using assms(2)
  by (simp add: solveForSmileStrike_def Let_def newton_secant_bs_delta
        deltaFit_bs_delta [of delta' otv env, OF assms(1)])

text \<open>
  The two calls of \<^verbatim>\<open>_solveForSmileStrike\<close> in the delta query are the strike search of
  claim C10.
\<close>

lemma solveForSmileStrike_call_delta:
  "solveForSmileStrike env (stock_price self) tau (r_arr self ! i) (q_arr self ! i)
     (EUROPEAN_CALL_value env) (fvt_value env (volatility_function_type self)) callDelta
     (stock_price self) (parameters self ! i) =
   call_delta_strike env self callDelta tau i"
proof -
  have "deltaFit env (fvt_value env (volatility_function_type self), stock_price self, tau,
          r_arr self ! i, q_arr self ! i, EUROPEAN_CALL_value env,
          norminvcdf env \<bar>callDelta\<bar>, parameters self ! i) =
        call_delta_objective env self callDelta tau i"
    by (simp add: fun_eq_iff deltaFit_def call_delta_objective_def Let_def split: sum.splits)
  then show ?thesis
    by (simp add: solveForSmileStrike_def call_delta_strike_def Let_def)
qed

lemma volatilityFromDeltaDate_result:
  "fst (volatilityFromDeltaDate env self callDelta d m) =
     (let tau = (d - valuation_date self) / gDaysInYear env;
          vtv = fvt_value env (volatility_function_type self);
          i0 = fst (bracket_DeltaDate self tau);
          i1 = snd (bracket_DeltaDate self tau);
          t0 = texp self ! i0;
          t1 = texp self ! i1
      in case call_delta_strike env self callDelta tau i0 of
           Inl e \<Rightarrow> Inl e
         | Inr K0 \<Rightarrow>
        (case volFunction env vtv (parameters self ! i0) (F0T self ! i0) K0 t0 of
           Inl e \<Rightarrow> Inl e
         | Inr vol0 \<Rightarrow>
             if i1 = i0 then Inr (vol0, K0)
             else
        (case call_delta_strike env self callDelta tau i1 of
           Inl e \<Rightarrow> Inl e
         | Inr K1 \<Rightarrow>
        (case volFunction env vtv (parameters self ! i1) (F0T self ! i1) K1 t1 of
           Inl e \<Rightarrow> Inl e
         | Inr vol1 \<Rightarrow>
             if 1 / 10 ^ 6 < \<bar>t1 - t0\<bar> then
               (if ((tau - t0) * (vol1 * vol1 * t1) + (t1 - tau) * (vol0 * vol0 * t0))
                     / (t1 - t0) < 0
                then Inl (FinError ''Failed interpolation due to negative variance.'')
                else Inr (sqrt (((tau - t0) * (vol1 * vol1 * t1)
                                   + (t1 - tau) * (vol0 * vol0 * t0)) / (t1 - t0) / tau),
                          ((tau - t0) * K1 + (t1 - tau) * K0) / (t1 - t0)))
             else Inr (vol0, K0)))))"
  by (simp add: volatilityFromDeltaDate_def Let_def solveForSmileStrike_call_delta
        split: sum.splits)

text \<open>The delta query on the concrete surface, between the first two expiries.\<close>

lemma call_delta_strike_demo:
  "call_delta_strike demo_env demo_surface (1 / 4) (3 / 2) 0 = Inr 150"
  "call_delta_strike demo_env demo_surface (1 / 4) (3 / 2) (Suc 0) = Inr 100"
  "call_delta_strike demo_env demo_surface (1 / 2) (3 / 2) 0 = Inr 100"
  "call_delta_strike demo_env demo_surface (1 / 2) (3 / 2) (Suc 0) = Inr (200 / 3)"
  by (simp_all add: call_delta_strike_def call_delta_objective_def newton_secant_def
        secant_iterate_step demo_surface_sel demo_env_sel volFunction_demo
        demo_fvt_value_def demo_delta_def demo_smile_def demo_update_def Let_def)

lemma bracket_DeltaDate_demo: "bracket_DeltaDate demo_surface (3 / 2) = (0, 1)"
  by (simp add: bracket_DeltaDate_def demo_surface_sel Let_def upt_rec)

lemma volatilityFromDeltaDate_demo:
  "fst (volatilityFromDeltaDate demo_env demo_surface (1 / 4) (1095 / 2)
          (None :: unit option)) = Inr (sqrt (11 / 150), 125)"
  "fst (volatilityFromDeltaDate demo_env demo_surface (1 / 2) (1095 / 2)
          (None :: unit option)) = Inr (sqrt (11 / 150), 250 / 3)"
  by (simp_all add: volatilityFromDeltaDate_result Let_def demo_surface_sel demo_env_sel
        bracket_DeltaDate_demo call_delta_strike_demo volFunction_demo demo_fvt_value_def
        demo_smile_def)

text \<open>
  Claim C10. The delta query reads the target delta as a European call delta only. It
  has no parameter for the option right. At each endpoint of the bracket its strike is
  the strike of the search whose objective is the inverse normal of the absolute
  target delta minus the inverse normal of the absolute delta of a European call: the
  option type is \<^verbatim>\<open>EUROPEAN_CALL\<close> at both endpoints, and the deltas are compared
  through their absolute values in inverse normal distribution space only. The result
  of the query is computed from these two strikes, the second one only when the
  endpoints differ. So the result is the same for any delta function whose absolute
  value agrees with that of \<^verbatim>\<open>bs_delta\<close> on European calls, whatever it returns for
  other option types, and for any target delta with the same absolute value.
\<close>

theorem volatilityFromDeltaDate_call_delta_only:
  "fst (volatilityFromDeltaDate env self callDelta d m) =
     (let tau = (d - valuation_date self) / gDaysInYear env;
          vtv = fvt_value env (volatility_function_type self);
          i0 = fst (bracket_DeltaDate self tau);
          i1 = snd (bracket_DeltaDate self tau);
          t0 = texp self ! i0;
          t1 = texp self ! i1
      in case call_delta_strike env self callDelta tau i0 of
           Inl e \<Rightarrow> Inl e
         | Inr K0 \<Rightarrow>
        (case volFunction env vtv (parameters self ! i0) (F0T self ! i0) K0 t0 of
           Inl e \<Rightarrow> Inl e
         | Inr vol0 \<Rightarrow>
             if i1 = i0 then Inr (vol0, K0)
             else
        (case call_delta_strike env self callDelta tau i1 of
           Inl e \<Rightarrow> Inl e
         | Inr K1 \<Rightarrow>
        (case volFunction env vtv (parameters self ! i1) (F0T self ! i1) K1 t1 of
           Inl e \<Rightarrow> Inl e
         | Inr vol1 \<Rightarrow>
             if 1 / 10 ^ 6 < \<bar>t1 - t0\<bar> then
               (if ((tau - t0) * (vol1 * vol1 * t1) + (t1 - tau) * (vol0 * vol0 * t0))
                     / (t1 - t0) < 0
                then Inl (FinError ''Failed interpolation due to negative variance.'')
                else Inr (sqrt (((tau - t0) * (vol1 * vol1 * t1)
                                   + (t1 - tau) * (vol0 * vol0 * t0)) / (t1 - t0) / tau),
                          ((tau - t0) * K1 + (t1 - tau) * K0) / (t1 - t0)))
             else Inr (vol0, K0))))) \<and>
   (\<forall>delta' callDelta'.
      (\<forall>s t k r q v.
         \<bar>delta' s t k r q v (EUROPEAN_CALL_value env)\<bar> =
         \<bar>bs_delta env s t k r q v (EUROPEAN_CALL_value env)\<bar>) \<and>
      \<bar>callDelta'\<bar> = \<bar>callDelta\<bar> \<longrightarrow>
      volatilityFromDeltaDate (env\<lparr>bs_delta := delta'\<rparr>) self callDelta' d m =
      volatilityFromDeltaDate env self callDelta d m)"
proof (intro conjI allI impI)
  show "fst (volatilityFromDeltaDate env self callDelta d m) =
     (let tau = (d - valuation_date self) / gDaysInYear env;
          vtv = fvt_value env (volatility_function_type self);
          i0 = fst (bracket_DeltaDate self tau);
          i1 = snd (bracket_DeltaDate self tau);
          t0 = texp self ! i0;
          t1 = texp self ! i1
      in case call_delta_strike env self callDelta tau i0 of
           Inl e \<Rightarrow> Inl e
         | Inr K0 \<Rightarrow>
        (case volFunction env vtv (parameters self ! i0) (F0T self ! i0) K0 t0 of
           Inl e \<Rightarrow> Inl e
         | Inr vol0 \<Rightarrow>
             if i1 = i0 then Inr (vol0, K0)
             else
        (case call_delta_strike env self callDelta tau i1 of
           Inl e \<Rightarrow> Inl e
         | Inr K1 \<Rightarrow>
        (case volFunction env vtv (parameters self ! i1) (F0T self ! i1) K1 t1 of
           Inl e \<Rightarrow> Inl e
         | Inr vol1 \<Rightarrow>
             if 1 / 10 ^ 6 < \<bar>t1 - t0\<bar> then
               (if ((tau - t0) * (vol1 * vol1 * t1) + (t1 - tau) * (vol0 * vol0 * t0))
                     / (t1 - t0) < 0
                then Inl (FinError ''Failed interpolation due to negative variance.'')
                else Inr (sqrt (((tau - t0) * (vol1 * vol1 * t1)
                                   + (t1 - tau) * (vol0 * vol0 * t0)) / (t1 - t0) / tau),
                          ((tau - t0) * K1 + (t1 - tau) * K0) / (t1 - t0)))
             else Inr (vol0, K0)))))"
    by (rule volatilityFromDeltaDate_result)
next
  fix delta' callDelta'
  assume h: "(\<forall>s t k r q v.
         \<bar>delta' s t k r q v (EUROPEAN_CALL_value env)\<bar> =
         \<bar>bs_delta env s t k r q v (EUROPEAN_CALL_value env)\<bar>) \<and>
      \<bar>callDelta'\<bar> = \<bar>callDelta\<bar>"
  have solve: "solveForSmileStrike (env\<lparr>bs_delta := delta'\<rparr>) s t r q
                 (EUROPEAN_CALL_value env) vtv callDelta' x0 params =
               solveForSmileStrike env s t r q (EUROPEAN_CALL_value env) vtv callDelta x0
                 params" for s t r q vtv x0 params
    using h by (intro solveForSmileStrike_bs_delta) simp_all
  have sel: "EUROPEAN_CALL_value (env\<lparr>bs_delta := delta'\<rparr>) = EUROPEAN_CALL_value env"
    "gDaysInYear (env\<lparr>bs_delta := delta'\<rparr>) = gDaysInYear env"
    "fvt_value (env\<lparr>bs_delta := delta'\<rparr>) = fvt_value env"
    by simp_all
  show "volatilityFromDeltaDate (env\<lparr>bs_delta := delta'\<rparr>) self callDelta' d m =
        volatilityFromDeltaDate env self callDelta d m"
    unfolding volatilityFromDeltaDate_def sel volFunction_bs_delta solve ..
qed

theorem volatilityFromDeltaDate_call_delta_only_witness:
  "bracket_DeltaDate demo_surface (3 / 2) = (0, 1) \<and>
   call_delta_strike demo_env demo_surface (1 / 4) (3 / 2) 0 = Inr 150 \<and>
   call_delta_strike demo_env demo_surface (1 / 4) (3 / 2) 1 = Inr 100 \<and>
   fst (volatilityFromDeltaDate demo_env demo_surface (1 / 4) (1095 / 2)
          (None :: unit option)) = Inr (sqrt (11 / 150), 125) \<and>
   (\<forall>s t k r q v.
      \<bar>(\<lambda>s t k r q v otv. if otv = 1 then k * v / 40 - 1 else 7) s t k r q v
         (EUROPEAN_CALL_value demo_env)\<bar> =
      \<bar>bs_delta demo_env s t k r q v (EUROPEAN_CALL_value demo_env)\<bar>) \<and>
   \<bar>- (1 / 4) :: real\<bar> = \<bar>1 / 4\<bar> \<and>
   fst (volatilityFromDeltaDate
          (demo_env\<lparr>bs_delta := (\<lambda>s t k r q v otv. if otv = 1 then k * v / 40 - 1 else 7)\<rparr>)
          demo_surface (- (1 / 4)) (1095 / 2) (None :: unit option)) =
     Inr (sqrt (11 / 150), 125) \<and>
   fst (volatilityFromDeltaDate demo_env demo_surface (1 / 2) (1095 / 2)
          (None :: unit option)) = Inr (sqrt (11 / 150), 250 / 3)"
proof -
  have hyp: "(\<forall>s t k r q v.
      \<bar>(\<lambda>s t k r q v otv. if otv = 1 then k * v / 40 - 1 else 7) s t k r q v
         (EUROPEAN_CALL_value demo_env)\<bar> =
      \<bar>bs_delta demo_env s t k r q v (EUROPEAN_CALL_value demo_env)\<bar>) \<and>
     \<bar>- (1 / 4) :: real\<bar> = \<bar>1 / 4\<bar>"
    by (simp add: demo_env_sel demo_delta_def abs_minus_commute)
  note inv = volatilityFromDeltaDate_call_delta_only
               [of demo_env demo_surface "1 / 4" "1095 / 2" "None :: unit option",
                THEN conjunct2, rule_format,
                of "\<lambda>s t k r q v otv. if otv = 1 then k * v / 40 - 1 else 7" "- (1 / 4)",
                OF hyp]
  with hyp show ?thesis
    by (simp add: volatilityFromDeltaDate_demo bracket_DeltaDate_demo call_delta_strike_demo)
qed

subsection \<open>Construction\<close>

text \<open>
  The two loops of \<^verbatim>\<open>_buildVolSurface\<close>. The first loop never raises and fills the
  arrays entry by entry; the calibration loop changes the parameters only and extends
  the list of initial guesses by the result of each calibration.
\<close>

lemma for_loop_append:
  "for_loop (xs @ ys) body st =
     (case for_loop xs body st of Inl e \<Rightarrow> Inl e | Inr st' \<Rightarrow> for_loop ys body st')"
  by (induction xs arbitrary: st) (auto split: sum.splits)


lemma curve_steps:
  assumes "k \<le> length (texp st0)" and "k \<le> length (r_arr st0)"
      and "k \<le> length (q_arr st0)" and "k \<le> length (F0T st0)"
  shows "\<exists>a b c d.
           for_loop [0..<k] (curve_step env) st0 =
             Inr (st0\<lparr>texp := a, r_arr := b, q_arr := c, F0T := d\<rparr>) \<and>
           length a = length (texp st0) \<and> length b = length (r_arr st0) \<and>
           length c = length (q_arr st0) \<and> length d = length (F0T st0) \<and>
           (\<forall>i<k. a ! i = (expiry_dates st0 ! i - valuation_date st0) / gDaysInYear env \<and>
                  b ! i = - ln (discount_curve st0 (a ! i)) / a ! i \<and>
                  c ! i = - ln (dividend_curve st0 (a ! i)) / a ! i \<and>
                  d ! i = stock_price st0 * dividend_curve st0 (a ! i)
                            / discount_curve st0 (a ! i))"
  using assms
proof (induction k)
  case 0
  have "st0 = st0\<lparr>texp := texp st0, r_arr := r_arr st0, q_arr := q_arr st0, F0T := F0T st0\<rparr>"
    by simp
  then show ?case
    by (metis for_loop.simps(1) upt_0 less_nat_zero_code upt.simps(1))
next
  case (Suc k)
  then obtain a b c d where
    run: "for_loop [0..<k] (curve_step env) st0 =
             Inr (st0\<lparr>texp := a, r_arr := b, q_arr := c, F0T := d\<rparr>)"
    and len: "length a = length (texp st0)" "length b = length (r_arr st0)"
             "length c = length (q_arr st0)" "length d = length (F0T st0)"
    and vals: "\<forall>i<k. a ! i = (expiry_dates st0 ! i - valuation_date st0) / gDaysInYear env \<and>
                  b ! i = - ln (discount_curve st0 (a ! i)) / a ! i \<and>
                  c ! i = - ln (dividend_curve st0 (a ! i)) / a ! i \<and>
                  d ! i = stock_price st0 * dividend_curve st0 (a ! i)
                            / discount_curve st0 (a ! i)"
    by auto
  let ?tau = "(expiry_dates st0 ! k - valuation_date st0) / gDaysInYear env"
  let ?a = "a[k := ?tau]"
  let ?b = "b[k := - ln (discount_curve st0 ?tau) / ?tau]"
  let ?c = "c[k := - ln (dividend_curve st0 ?tau) / ?tau]"
  let ?d = "d[k := stock_price st0 * dividend_curve st0 ?tau / discount_curve st0 ?tau]"
  have step: "for_loop [0..<Suc k] (curve_step env) st0 =
             Inr (st0\<lparr>texp := ?a, r_arr := ?b, q_arr := ?c, F0T := ?d\<rparr>)"
    using run by (simp add: for_loop_append curve_step_def Let_def)
  have k: "k < length a" "k < length b" "k < length c" "k < length d"
    using Suc.prems len by simp_all
  have "\<forall>i<Suc k. ?a ! i = (expiry_dates st0 ! i - valuation_date st0) / gDaysInYear env \<and>
                  ?b ! i = - ln (discount_curve st0 (?a ! i)) / ?a ! i \<and>
                  ?c ! i = - ln (dividend_curve st0 (?a ! i)) / ?a ! i \<and>
                  ?d ! i = stock_price st0 * dividend_curve st0 (?a ! i)
                            / discount_curve st0 (?a ! i)"
  proof (intro allI impI)
    fix i assume "i < Suc k"
    show "?a ! i = (expiry_dates st0 ! i - valuation_date st0) / gDaysInYear env \<and>
                  ?b ! i = - ln (discount_curve st0 (?a ! i)) / ?a ! i \<and>
                  ?c ! i = - ln (dividend_curve st0 (?a ! i)) / ?a ! i \<and>
                  ?d ! i = stock_price st0 * dividend_curve st0 (?a ! i)
                            / discount_curve st0 (?a ! i)"
    proof (cases "i = k")
      case True
      with k show ?thesis by simp
    next
      case False
      with \<open>i < Suc k\<close> have "i < k" by simp
      with vals False show ?thesis by simp
    qed
  qed
  with step len show ?case
    by (intro exI [of _ ?a] exI [of _ ?b] exI [of _ ?c] exI [of _ ?d]) simp
qed

lemma calib_steps:
  assumes "for_loop [0..<k] (calib_step env solver) (st0, [x0]) = Inr (st, xs)"
  shows "\<exists>ps. st = st0\<lparr>parameters := ps\<rparr> \<and> length ps = length (parameters st0) \<and>
              length xs = Suc k \<and> xs ! 0 = x0 \<and>
              (\<forall>i<k. fst (solveToHorizon env (stock_price st0) (texp st0 ! i) (r_arr st0 ! i)
                             (q_arr st0 ! i) (strikes st0) i (volatility_grid st0)
                             (fvt_value env (volatility_function_type st0)) (xs ! i) solver)
                       = Inr (xs ! Suc i))"
  using assms
proof (induction k arbitrary: st xs)
  case 0
  then have "st = st0" "xs = [x0]" by simp_all
  then show ?case by (intro exI [of _ "parameters st0"]) simp
next
  case (Suc k)
  from Suc.prems obtain st' xs' where
    mid: "for_loop [0..<k] (calib_step env solver) (st0, [x0]) = Inr (st', xs')"
    and last: "calib_step env solver k (st', xs') = Inr (st, xs)"
    by (auto simp: for_loop_append split: sum.splits)
  from Suc.IH [OF mid] obtain ps where
    ih: "st' = st0\<lparr>parameters := ps\<rparr>" "length ps = length (parameters st0)"
        "length xs' = Suc k" "xs' ! 0 = x0"
        "\<forall>i<k. fst (solveToHorizon env (stock_price st0) (texp st0 ! i) (r_arr st0 ! i)
                             (q_arr st0 ! i) (strikes st0) i (volatility_grid st0)
                             (fvt_value env (volatility_function_type st0)) (xs' ! i) solver)
                       = Inr (xs' ! Suc i)"
    by blast
  from last ih(1) obtain res row where
    res: "fst (solveToHorizon env (stock_price st0) (texp st0 ! k) (r_arr st0 ! k)
                 (q_arr st0 ! k) (strikes st0) k (volatility_grid st0)
                 (fvt_value env (volatility_function_type st0)) (xs' ! k) solver) = Inr res"
    and st: "st = st0\<lparr>parameters := ps[k := row]\<rparr>" and xs: "xs = xs' @ [res]"
    by (auto simp: calib_step_def Let_def split: sum.splits)
  have nth: "xs ! i = xs' ! i" if "i \<le> k" for i
    using that ih(3) xs by (simp add: nth_append)
  have top: "xs ! Suc k = res"
    using ih(3) xs by (simp add: nth_append)
  have "\<forall>i<Suc k. fst (solveToHorizon env (stock_price st0) (texp st0 ! i) (r_arr st0 ! i)
                             (q_arr st0 ! i) (strikes st0) i (volatility_grid st0)
                             (fvt_value env (volatility_function_type st0)) (xs ! i) solver)
                       = Inr (xs ! Suc i)"
  proof (intro allI impI)
    fix i assume "i < Suc k"
    show "fst (solveToHorizon env (stock_price st0) (texp st0 ! i) (r_arr st0 ! i)
                             (q_arr st0 ! i) (strikes st0) i (volatility_grid st0)
                             (fvt_value env (volatility_function_type st0)) (xs ! i) solver)
                       = Inr (xs ! Suc i)"
    proof (cases "i = k")
      case True
      with res nth [of k] top show ?thesis by simp
    next
      case False
      with \<open>i < Suc k\<close> have "i < k" by simp
      with ih(5) nth [of i] nth [of "Suc i"] show ?thesis by simp
    qed
  qed
  moreover have "length xs = Suc (Suc k)" using ih(3) xs by simp
  moreover have "xs ! 0 = x0" using nth [of 0] ih(4) by simp
  ultimately show ?case
    using st ih(2) by (intro exI [of _ "ps[k := row]"]) simp
qed

lemma curve_loop_result:
  "\<exists>a b c d.
     curve_loop env self =
       Inr (self\<lparr>parameters := replicate (numExpiryDates self)
                                 (replicate (num_parameters_of (volatility_function_type self)) 0),
                 texp := a, F0T := d, r_arr := b, q_arr := c\<rparr>) \<and>
     length a = numExpiryDates self \<and> length b = numExpiryDates self \<and>
     length c = numExpiryDates self \<and> length d = numExpiryDates self \<and>
     (\<forall>i<numExpiryDates self.
        a ! i = (expiry_dates self ! i - valuation_date self) / gDaysInYear env \<and>
        b ! i = - ln (discount_curve self (a ! i)) / a ! i \<and>
        c ! i = - ln (dividend_curve self (a ! i)) / a ! i \<and>
        d ! i = stock_price self * dividend_curve self (a ! i) / discount_curve self (a ! i))"
proof -
  let ?n = "numExpiryDates self"
  let ?st0 = "self\<lparr>parameters := replicate ?n
                                 (replicate (num_parameters_of (volatility_function_type self)) 0),
                 texp := replicate ?n 0, F0T := replicate ?n 0,
                 r_arr := replicate ?n 0, q_arr := replicate ?n 0\<rparr>"
  from curve_steps [of ?n ?st0 env] obtain a b c d where
    "for_loop [0..<?n] (curve_step env) ?st0 =
             Inr (?st0\<lparr>texp := a, r_arr := b, q_arr := c, F0T := d\<rparr>)"
    "length a = ?n" "length b = ?n" "length c = ?n" "length d = ?n"
    "\<forall>i<?n. a ! i = (expiry_dates self ! i - valuation_date self) / gDaysInYear env \<and>
        b ! i = - ln (discount_curve self (a ! i)) / a ! i \<and>
        c ! i = - ln (dividend_curve self (a ! i)) / a ! i \<and>
        d ! i = stock_price self * dividend_curve self (a ! i) / discount_curve self (a ! i)"
    by auto
  then show ?thesis
    by (intro exI [of _ a] exI [of _ b] exI [of _ c] exI [of _ d])
       (simp add: curve_loop_def Let_def)
qed

lemma buildVolSurface_result:
  assumes "buildVolSurface env self solver = Inr self2"
  shows "\<exists>self1 xinits ps.
           curve_loop env self = Inr self1 \<and>
           calib_loop env solver self1 = Inr (self2, xinits) \<and>
           self2 = self1\<lparr>parameters := ps\<rparr> \<and>
           length ps = numExpiryDates self \<and>
           length xinits = Suc (numExpiryDates self) \<and>
           xinits ! 0 = replicate (num_parameters_of (volatility_function_type self)) 0 \<and>
           (\<forall>i<numExpiryDates self.
              fst (solveToHorizon env (stock_price self) (texp self2 ! i) (r_arr self2 ! i)
                     (q_arr self2 ! i) (strikes self) i (volatility_grid self)
                     (fvt_value env (volatility_function_type self)) (xinits ! i) solver)
                = Inr (xinits ! Suc i))"
proof -
  from curve_loop_result [of env self] obtain a b c d where
    cl: "curve_loop env self =
       Inr (self\<lparr>parameters := replicate (numExpiryDates self)
                                 (replicate (num_parameters_of (volatility_function_type self)) 0),
                 texp := a, F0T := d, r_arr := b, q_arr := c\<rparr>)"
    by blast
  let ?self1 = "self\<lparr>parameters := replicate (numExpiryDates self)
                                 (replicate (num_parameters_of (volatility_function_type self)) 0),
                 texp := a, F0T := d, r_arr := b, q_arr := c\<rparr>"
  from assms cl obtain xinits where
    ca: "calib_loop env solver ?self1 = Inr (self2, xinits)"
    by (auto simp: buildVolSurface_def split: sum.splits)
  then have "for_loop [0..<numExpiryDates self] (calib_step env solver)
               (?self1, [replicate (num_parameters_of (volatility_function_type self)) 0])
             = Inr (self2, xinits)"
    by (simp add: calib_loop_def Let_def)
  from calib_steps [OF this] obtain ps where
    "self2 = ?self1\<lparr>parameters := ps\<rparr>"
    "length ps = numExpiryDates self" "length xinits = Suc (numExpiryDates self)"
    "xinits ! 0 = replicate (num_parameters_of (volatility_function_type self)) 0"
    "\<forall>i<numExpiryDates self.
        fst (solveToHorizon env (stock_price self) (a ! i) (b ! i) (c ! i) (strikes self) i
               (volatility_grid self) (fvt_value env (volatility_function_type self))
               (xinits ! i) solver) = Inr (xinits ! Suc i)"
    by auto
  with cl ca show ?thesis
    by (intro exI [of _ ?self1] exI [of _ xinits] exI [of _ ps]) simp
qed

lemma buildVolSurface_arrays:
  assumes "buildVolSurface env self solver = Inr self2"
  shows "\<exists>ps a b c d.
           self2 = self\<lparr>parameters := ps, texp := a, F0T := d, r_arr := b, q_arr := c\<rparr> \<and>
           length ps = numExpiryDates self \<and>
           length a = numExpiryDates self \<and> length b = numExpiryDates self \<and>
           length c = numExpiryDates self \<and> length d = numExpiryDates self \<and>
           (\<forall>i<numExpiryDates self.
              a ! i = (expiry_dates self ! i - valuation_date self) / gDaysInYear env \<and>
              b ! i = - ln (discount_curve self (a ! i)) / a ! i \<and>
              c ! i = - ln (dividend_curve self (a ! i)) / a ! i \<and>
              d ! i = stock_price self * dividend_curve self (a ! i)
                        / discount_curve self (a ! i))"
proof -
  from curve_loop_result [of env self] obtain a b c d where
    cl: "curve_loop env self =
       Inr (self\<lparr>parameters := replicate (numExpiryDates self)
                                 (replicate (num_parameters_of (volatility_function_type self)) 0),
                 texp := a, F0T := d, r_arr := b, q_arr := c\<rparr>)"
    and len: "length a = numExpiryDates self" "length b = numExpiryDates self"
      "length c = numExpiryDates self" "length d = numExpiryDates self"
    and vals: "\<forall>i<numExpiryDates self.
              a ! i = (expiry_dates self ! i - valuation_date self) / gDaysInYear env \<and>
              b ! i = - ln (discount_curve self (a ! i)) / a ! i \<and>
              c ! i = - ln (dividend_curve self (a ! i)) / a ! i \<and>
              d ! i = stock_price self * dividend_curve self (a ! i)
                        / discount_curve self (a ! i)"
    by blast
  from buildVolSurface_result [OF assms] obtain self1 ps where
    s1: "curve_loop env self = Inr self1" "self2 = self1\<lparr>parameters := ps\<rparr>"
    and lps: "length ps = numExpiryDates self"
    by blast
  from s1(1) cl have
    e: "self1 = self\<lparr>parameters := replicate (numExpiryDates self)
                                 (replicate (num_parameters_of (volatility_function_type self)) 0),
                 texp := a, F0T := d, r_arr := b, q_arr := c\<rparr>"
    by simp
  have "self2 = self\<lparr>parameters := ps, texp := a, F0T := d, r_arr := b, q_arr := c\<rparr>"
    unfolding s1(2) e by simp
  with lps len vals show ?thesis by blast
qed

lemma init_built:
  assumes "EquityVolSurface_init env vd sp dc dv eds ks grid ty solver = Inr self"
  shows "eds \<noteq> [] \<and>
         buildVolSurface env
           \<lparr>valuation_date = vd, stock_price = sp, discount_curve = dc, dividend_curve = dv,
            strikes = ks, numStrikes = length ks, expiry_dates = eds,
            numExpiryDates = length eds, volatility_grid = grid,
            volatility_function_type = ty, parameters = [], texp = [], F0T = [],
            r_arr = [], q_arr = []\<rparr> solver = Inr self"
  using assms
  by (auto simp: EquityVolSurface_init_def Let_def split: list.splits if_splits)

lemma init_surface_ok:
  assumes "EquityVolSurface_init env vd sp dc dv eds ks grid ty solver = Inr self"
  shows "surface_ok env self"
proof -
  from init_built [OF assms] have ne: "eds \<noteq> []" and
    b: "buildVolSurface env
           \<lparr>valuation_date = vd, stock_price = sp, discount_curve = dc, dividend_curve = dv,
            strikes = ks, numStrikes = length ks, expiry_dates = eds,
            numExpiryDates = length eds, volatility_grid = grid,
            volatility_function_type = ty, parameters = [], texp = [], F0T = [],
            r_arr = [], q_arr = []\<rparr> solver = Inr self"
    by simp_all
  from buildVolSurface_arrays [OF b] obtain ps a b c d where
    self: "self = \<lparr>valuation_date = vd, stock_price = sp, discount_curve = dc,
            dividend_curve = dv, strikes = ks, numStrikes = length ks, expiry_dates = eds,
            numExpiryDates = length eds, volatility_grid = grid,
            volatility_function_type = ty, parameters = ps, texp = a, F0T = d,
            r_arr = b, q_arr = c\<rparr>"
    and len: "length ps = length eds" "length a = length eds" "length b = length eds"
      "length c = length eds" "length d = length eds"
    and vals: "\<forall>i<length eds. a ! i = (eds ! i - vd) / gDaysInYear env"
    by auto
  have "a = map (\<lambda>d. (d - vd) / gDaysInYear env) eds"
    using len(2) vals by (intro nth_equalityI) simp_all
  with self len ne show ?thesis
    by (cases eds) (simp_all add: surface_ok_def)
qed

lemma volatilityFromStrikeDate_frame:
  "snd (volatilityFromStrikeDate env self K d) = self"
  by (simp add: volatilityFromStrikeDate_def Let_def split: sum.splits)

lemma volatilityFromDeltaDate_frame:
  "snd (volatilityFromDeltaDate env self cd d m) = self"
  by (simp add: volatilityFromDeltaDate_def Let_def split: sum.splits option.splits prod.splits)

text \<open>
  Claim C8. After a successful construction every array has one entry per expiry, and
  for every expiry index \<open>i\<close>: the time to expiry is the year fraction from the
  valuation date to the expiry date, the forward is the spot times the dividend
  discount factor over the discount factor at that time, and the zero rate is minus the
  logarithm of the discount factor over that time. The arrays are written by the
  construction only: every strike query and every delta query leaves the surface as it
  was.
\<close>

theorem EquityVolSurface_init_arrays:
  assumes "EquityVolSurface_init env vd sp dc dv eds ks grid ty solver = Inr self"
  shows "length (texp self) = length eds \<and> length (F0T self) = length eds \<and>
         length (r_arr self) = length eds \<and>
         (\<forall>i<length eds.
            texp self ! i = (eds ! i - vd) / gDaysInYear env \<and>
            F0T self ! i = sp * dv (texp self ! i) / dc (texp self ! i) \<and>
            r_arr self ! i = - ln (dc (texp self ! i)) / texp self ! i) \<and>
         (\<forall>K d. snd (volatilityFromStrikeDate env self K d) = self) \<and>
         (\<forall>callDelta d (m :: 'm option).
            snd (volatilityFromDeltaDate env self callDelta d m) = self)"
proof -
  from init_built [OF assms] have
    b: "buildVolSurface env
           \<lparr>valuation_date = vd, stock_price = sp, discount_curve = dc, dividend_curve = dv,
            strikes = ks, numStrikes = length ks, expiry_dates = eds,
            numExpiryDates = length eds, volatility_grid = grid,
            volatility_function_type = ty, parameters = [], texp = [], F0T = [],
            r_arr = [], q_arr = []\<rparr> solver = Inr self"
    by simp
  from buildVolSurface_arrays [OF b] obtain ps a b c d where
    self: "self = \<lparr>valuation_date = vd, stock_price = sp, discount_curve = dc,
            dividend_curve = dv, strikes = ks, numStrikes = length ks, expiry_dates = eds,
            numExpiryDates = length eds, volatility_grid = grid,
            volatility_function_type = ty, parameters = ps, texp = a, F0T = d,
            r_arr = b, q_arr = c\<rparr>"
    and len: "length a = length eds" "length b = length eds" "length d = length eds"
    and vals: "\<forall>i<length eds. a ! i = (eds ! i - vd) / gDaysInYear env \<and>
                  b ! i = - ln (dc (a ! i)) / a ! i \<and>
                  d ! i = sp * dv (a ! i) / dc (a ! i)"
    by auto
  have arr: "texp self = a" "F0T self = d" "r_arr self = b"
    by (simp_all add: self)
  show ?thesis
    unfolding arr using len vals
    by (simp add: volatilityFromStrikeDate_frame volatilityFromDeltaDate_frame)
qed

theorem EquityVolSurface_init_arrays_witness:
  "EquityVolSurface_init demo_env 0 100 (\<lambda>t. 1) (\<lambda>t. 1) [365, 730, 1095]
     [90, 100, 110] demo_grid CLARK CONJUGATE_GRADIENT = Inr demo_surface \<and>
   texp demo_surface = [1, 2, 3] \<and> F0T demo_surface = [100, 100, 100] \<and>
   r_arr demo_surface = [0, 0, 0] \<and>
   snd (volatilityFromStrikeDate demo_env demo_surface 95 500) = demo_surface"
  using EquityVolSurface_init_arrays [OF init_demo] init_demo
  by (auto simp: demo_surface_sel)

text \<open>
  Claim C9. A successful construction runs the calibration loop over the expiries in
  list order on the surface that the first loop leaves. The list of initial guesses
  starts with the zero vector of the family's parameter count, and for every expiry
  index \<open>i\<close> the calibration of expiry \<open>i\<close> is started from entry \<open>i\<close> of the list and
  its result is entry \<open>i + 1\<close>: the calibration of expiry \<open>i \<ge> 1\<close> is started from the
  vector that the calibration of expiry \<open>i - 1\<close> returned.
\<close>

theorem buildVolSurface_warm_start:
  assumes "buildVolSurface env self solver = Inr self2"
  shows "\<exists>self1 xinits.
           curve_loop env self = Inr self1 \<and>
           calib_loop env solver self1 = Inr (self2, xinits) \<and>
           length xinits = Suc (numExpiryDates self) \<and>
           xinits ! 0 = replicate (num_parameters_of (volatility_function_type self)) 0 \<and>
           (\<forall>i<numExpiryDates self.
              fst (solveToHorizon env (stock_price self) (texp self2 ! i) (r_arr self2 ! i)
                     (q_arr self2 ! i) (strikes self) i (volatility_grid self)
                     (fvt_value env (volatility_function_type self)) (xinits ! i) solver)
                = Inr (xinits ! Suc i))"
  using buildVolSurface_result [OF assms] by blast

theorem buildVolSurface_warm_start_witness:
  "buildVolSurface demo_env (market_surface [365, 730, 1095] skew_grid) CONJUGATE_GRADIENT =
     Inr skew_surface \<and>
   calib_loop demo_env CONJUGATE_GRADIENT
     (skew_surface\<lparr>parameters := [[0, 0, 0], [0, 0, 0], [0, 0, 0]]\<rparr>) =
     Inr (skew_surface, [[0, 0, 0], [1 / 5, 0, 0], [1 / 5, - 1, 0], [2 / 5, 0, 0]])"
  using buildVolSurface_warm_start [OF buildVolSurface_skew] buildVolSurface_skew
    calib_loop_skew
  by simp

end
